theory Spec2Isabelle
  imports Complex_Main
begin

section \<open>Python values and strings\<close>

text \<open>
  The repository is Python. A \<open>str\<close> is modelled as a \<open>string\<close> (one \<open>char\<close> per
  character, which covers the code points 0 to 255), a value produced by \<open>json.loads\<close> as
  the datatype \<open>json\<close>, and a \<open>dict\<close> as an association list in insertion order:
  looking a key up takes the first entry, assigning to a key replaces the entry in place or
  appends a new one, as Python's ordered dictionaries do.
\<close>

datatype pyfloat = Finite real | NaN | PosInf | NegInf

datatype json =
    JNull
  | JBool bool
  | JInt int
  | JFloat pyfloat
  | JStr string
  | JArr "json list"
  | JObj "(string \<times> json) list"

text \<open>Truthiness, as \<open>not x\<close>, \<open>x or y\<close> and \<open>if x:\<close> test it.\<close>

fun truthy :: "json \<Rightarrow> bool" where
  "truthy JNull = False"
| "truthy (JBool b) = b"
| "truthy (JInt n) = (n \<noteq> 0)"
| "truthy (JFloat (Finite r)) = (r \<noteq> 0)"
| "truthy (JFloat f) = True"
| "truthy (JStr s) = (s \<noteq> [])"
| "truthy (JArr xs) = (xs \<noteq> [])"
| "truthy (JObj kvs) = (kvs \<noteq> [])"

fun is_dict :: "json \<Rightarrow> bool" where
  "is_dict (JObj kvs) = True"
| "is_dict v = False"

text \<open>\<open>type(x).__name__\<close>, which the interpreter's own error messages quote.\<close>

fun type_name :: "json \<Rightarrow> string" where
  "type_name JNull = ''NoneType''"
| "type_name (JBool b) = ''bool''"
| "type_name (JInt n) = ''int''"
| "type_name (JFloat f) = ''float''"
| "type_name (JStr s) = ''str''"
| "type_name (JArr xs) = ''list''"
| "type_name (JObj kvs) = ''dict''"

text \<open>\<open>k in d\<close>, \<open>d.get(k)\<close> and \<open>d[k] = v\<close> on a dictionary.\<close>

definition has_key :: "string \<Rightarrow> (string \<times> json) list \<Rightarrow> bool" where
  "has_key k kvs = (map_of kvs k \<noteq> None)"

fun dict_set :: "string \<Rightarrow> json \<Rightarrow> (string \<times> json) list \<Rightarrow> (string \<times> json) list" where
  "dict_set k v [] = [(k, v)]"
| "dict_set k v (p # ps) = (if fst p = k then (k, v) # ps else p # dict_set k v ps)"

text \<open>\<open>x or d\<close> where \<open>x\<close> is the result of \<open>dict.get\<close> (\<open>None\<close> when the key is absent).\<close>

fun py_or :: "json option \<Rightarrow> json \<Rightarrow> json" where
  "py_or None d = d"
| "py_or (Some v) d = (if truthy v then v else d)"

text \<open>Decimal rendering of a non-negative integer, as an f-string does it.\<close>

definition digit_char :: "nat \<Rightarrow> char" where
  "digit_char d =
     (if d = 0 then CHR ''0'' else if d = 1 then CHR ''1'' else if d = 2 then CHR ''2''
      else if d = 3 then CHR ''3'' else if d = 4 then CHR ''4'' else if d = 5 then CHR ''5''
      else if d = 6 then CHR ''6'' else if d = 7 then CHR ''7'' else if d = 8 then CHR ''8''
      else CHR ''9'')"

function str_nat :: "nat \<Rightarrow> string" where
  "str_nat n = (if n < 10 then [digit_char n] else str_nat (n div 10) @ [digit_char (n mod 10)])"
  by pat_completeness auto
termination
  by (relation "measure (\<lambda>n. n)") auto

declare str_nat.simps [simp del]

section \<open>Errors\<close>

text \<open>
  Every exception the modelled code can raise is a value; \<open>str_of\<close> is \<open>str(e)\<close>.
  A \<open>JSONDecodeError\<close> carries the parser's message, line, column and position, and
  prints as the library formats it. \<open>RaisedException\<close> is a plain \<open>Exception(message)\<close>,
  \<open>ConnectionError\<close> the built-in of that name, \<open>ClientError\<close> an
  \<open>aiohttp.ClientError\<close> or a \<open>requests.exceptions.ConnectionError\<close>, and
  \<open>RequestsTimeout\<close> a \<open>requests.exceptions.Timeout\<close>.
\<close>

datatype error =
    ValueError string
  | JSONDecodeError string nat nat nat
  | AttributeError string string
  | RaisedException string
  | NameError string
  | UnboundLocalError string
  | TypeError string
  | ConnectionError string
  | ClientError string
  | RequestsTimeout string

fun str_of :: "error \<Rightarrow> string" where
  "str_of (ValueError m) = m"
| "str_of (JSONDecodeError m l c p) =
     m @ '': line '' @ str_nat l @ '' column '' @ str_nat c @ '' (char '' @ str_nat p @ '')''"
| "str_of (AttributeError ty attr) =
     [CHR 0x27] @ ty @ [CHR 0x27] @ '' object has no attribute '' @ [CHR 0x27] @ attr @ [CHR 0x27]"
| "str_of (RaisedException m) = m"
| "str_of (NameError n) = ''name '' @ [CHR 0x27] @ n @ [CHR 0x27] @ '' is not defined''"
| "str_of (UnboundLocalError n) =
     ''cannot access local variable '' @ [CHR 0x27] @ n @ [CHR 0x27]
       @ '' where it is not associated with a value''"
| "str_of (TypeError m) = m"
| "str_of (ConnectionError m) = m"
| "str_of (ClientError m) = m"
| "str_of (RequestsTimeout m) = m"

section \<open>Workflow validation: \<open>ensure_complete_workflow_json\<close>\<close>

text \<open>
  \<open>workflow_worker/main.py\<close>, \<open>ensure_complete_workflow_json\<close>. The function mutates
  the dictionary it is given and returns it; the model returns the updated value.
\<close>

definition default_position :: "nat \<Rightarrow> json" where
  "default_position i = JObj [(''x'', JInt (250 + int i * 300)), (''y'', JInt 100)]"

definition default_node :: "nat \<Rightarrow> json" where
  "default_node i =
     JObj [(''id'', JStr (''node_'' @ str_nat (i + 1))),
           (''type'', JStr ''noop''),
           (''position'', default_position i),
           (''config'', JObj [])]"

definition set_if_missing :: "string \<Rightarrow> json \<Rightarrow> (string \<times> json) list \<Rightarrow> (string \<times> json) list" where
  "set_if_missing k v kvs = (if \<not> has_key k kvs then dict_set k v kvs else kvs)"

text \<open>The body of the loop \<open>for i, node in enumerate(workflow["nodes"])\<close>.\<close>

fun fix_node :: "nat \<Rightarrow> json \<Rightarrow> json" where
  "fix_node i (JObj node) =
     JObj (set_if_missing ''config'' (JObj [])
            (set_if_missing ''position'' (default_position i)
              (set_if_missing ''type'' (JStr ''noop'')
                (set_if_missing ''id'' (JStr (''node_'' @ str_nat (i + 1))) node))))"
| "fix_node i node = default_node i"

fun fix_nodes :: "nat \<Rightarrow> json list \<Rightarrow> json list" where
  "fix_nodes i [] = []"
| "fix_nodes i (node # nodes) = fix_node i node # fix_nodes (Suc i) nodes"

text \<open>
  The loop \<open>for i, edge in enumerate(workflow["edges"])\<close>: the first edge that is not an
  object, or that lacks \<open>source\<close> or \<open>target\<close>, raises.
\<close>

fun validate_edges :: "nat \<Rightarrow> json list \<Rightarrow> error + json list" where
  "validate_edges i [] = Inr []"
| "validate_edges i (JObj edge # edges) =
     (let edge' = set_if_missing ''id'' (JStr (''edge_'' @ str_nat (i + 1))) edge
      in if \<not> has_key ''source'' edge' \<or> \<not> has_key ''target'' edge'
         then Inl (ValueError (''Invalid edge at index '' @ str_nat i @ '': missing source or target''))
         else (case validate_edges (Suc i) edges of
                 Inl e \<Rightarrow> Inl e
               | Inr edges' \<Rightarrow> Inr (JObj edge' # edges')))"
| "validate_edges i (edge # edges) =
     Inl (ValueError (''Invalid edge at index '' @ str_nat i @ '': must be an object''))"

text \<open>
  \<open>if k not in workflow or not isinstance(workflow[k], list): workflow[k] = []\<close>
\<close>

definition ensure_list_field :: "string \<Rightarrow> (string \<times> json) list \<Rightarrow> (string \<times> json) list" where
  "ensure_list_field k w =
     (case map_of w k of Some (JArr xs) \<Rightarrow> w | _ \<Rightarrow> dict_set k (JArr []) w)"

text \<open>
  \<open>if k not in workflow or not isinstance(workflow[k], str): workflow[k] = workflow.get(k) or d\<close>
\<close>

definition ensure_str_field :: "string \<Rightarrow> string \<Rightarrow> (string \<times> json) list \<Rightarrow> (string \<times> json) list" where
  "ensure_str_field k d w =
     (case map_of w k of Some (JStr s) \<Rightarrow> w | other \<Rightarrow> dict_set k (py_or other (JStr d)) w)"

definition list_field :: "string \<Rightarrow> (string \<times> json) list \<Rightarrow> json list" where
  "list_field k w = (case map_of w k of Some (JArr xs) \<Rightarrow> xs | _ \<Rightarrow> [])"

text \<open>
  The closing \<open>json.dumps\<close>/\<open>json.loads\<close> round trip only raises on a value that cannot
  be serialised; its result is discarded. Every value of type \<open>json\<close> can be serialised, so
  the round trip is no branch of the model.
\<close>

definition ensure_complete_workflow_json :: "json \<Rightarrow> error + json" where
  "ensure_complete_workflow_json workflow =
     (if \<not> truthy workflow \<or> \<not> is_dict workflow
      then Inl (ValueError ''Invalid workflow: must be an object'')
      else (case workflow of
              JObj w0 \<Rightarrow>
                (let w1 = ensure_list_field ''nodes'' w0;
                     w2 = ensure_list_field ''edges'' w1;
                     w3 = ensure_str_field ''name'' ''Generated Workflow'' w2;
                     w4 = ensure_str_field ''summary'' ''AI-generated workflow'' w3;
                     w5 = dict_set ''nodes'' (JArr (fix_nodes 0 (list_field ''nodes'' w4))) w4
                 in (case validate_edges 0 (list_field ''edges'' w5) of
                       Inl e \<Rightarrow> Inl e
                     | Inr edges' \<Rightarrow> Inr (JObj (dict_set ''edges'' (JArr edges') w5))))
            | _ \<Rightarrow> Inl (ValueError ''Invalid workflow: must be an object'')))"

subsection \<open>Predicates on validated workflows\<close>

text \<open>
  What the edge loop tests of an edge (\<open>edge_ok\<close>), what the two loops establish of a node
  and of an edge (\<open>complete_node\<close>, \<open>complete_edge\<close>), and the error the edge loop
  raises at index \<open>i\<close> (\<open>edge_error\<close>).
\<close>

definition edge_ok :: "json \<Rightarrow> bool" where
  "edge_ok e = (case e of JObj kvs \<Rightarrow> has_key ''source'' kvs \<and> has_key ''target'' kvs | _ \<Rightarrow> False)"

definition complete_node :: "json \<Rightarrow> bool" where
  "complete_node n = (case n of JObj kvs \<Rightarrow> has_key ''id'' kvs \<and> has_key ''type'' kvs \<and> has_key ''position'' kvs \<and> has_key ''config'' kvs | _ \<Rightarrow> False)"

definition complete_edge :: "json \<Rightarrow> bool" where
  "complete_edge e = (case e of JObj kvs \<Rightarrow> has_key ''id'' kvs \<and> has_key ''source'' kvs \<and> has_key ''target'' kvs | _ \<Rightarrow> False)"

definition edge_error :: "nat \<Rightarrow> json \<Rightarrow> error" where
  "edge_error i e = ValueError (''Invalid edge at index '' @ str_nat i @
       (if is_dict e then '': missing source or target'' else '': must be an object''))"

text \<open>
  The data-model invariant in the specification's words: every edge's \<open>source\<close> and
  \<open>target\<close> is the \<open>id\<close> of a node of the graph. It is not taken from the code;
  it is what the code is compared with.
\<close>

definition node_ids :: "json list \<Rightarrow> json list" where
  "node_ids nodes = concat (map (\<lambda>n. case n of JObj kvs \<Rightarrow> (case map_of kvs ''id'' of Some v \<Rightarrow> [v] | None \<Rightarrow> []) | _ \<Rightarrow> []) nodes)"

definition edge_resolved :: "json list \<Rightarrow> json \<Rightarrow> bool" where
  "edge_resolved ids e =
     (case e of
        JObj kvs \<Rightarrow>
          (case (map_of kvs ''source'', map_of kvs ''target'') of
             (Some s, Some t) \<Rightarrow> s \<in> set ids \<and> t \<in> set ids
           | _ \<Rightarrow> False)
      | _ \<Rightarrow> False)"

definition edge_refs_resolved :: "json \<Rightarrow> bool" where
  "edge_refs_resolved w =
     (case w of
        JObj kvs \<Rightarrow> list_all (edge_resolved (node_ids (list_field ''nodes'' kvs))) (list_field ''edges'' kvs)
      | _ \<Rightarrow> False)"

section \<open>String operations\<close>

text \<open>
  The methods of \<open>str\<close> the modelled code calls. \<open>py_isspace\<close> is \<open>str.isspace\<close> on one
  character (code points 9 to 13, 28 to 32, 133 and 160 below 256), \<open>strip\<close> is
  \<open>str.strip()\<close>, \<open>startswith\<close> is \<open>str.startswith\<close>, \<open>contains sub s\<close> is
  \<open>sub in s\<close>, \<open>find\<close> and \<open>rfind\<close> are \<open>str.find\<close> and \<open>str.rfind\<close> with
  \<open>None\<close> for -1, \<open>split_py sep s\<close> is \<open>s.split(sep)\<close> for a non-empty separator, and
  \<open>lower\<close> is \<open>str.lower\<close>.
\<close>

definition py_isspace :: "char \<Rightarrow> bool" where
  "py_isspace c = (let n = (of_char c :: nat) in (9 \<le> n \<and> n \<le> 13) \<or> (28 \<le> n \<and> n \<le> 32) \<or> n = 133 \<or> n = 160)"

definition lstrip :: "string \<Rightarrow> string" where
  "lstrip s = dropWhile py_isspace s"

definition rstrip :: "string \<Rightarrow> string" where
  "rstrip s = rev (dropWhile py_isspace (rev s))"

definition strip :: "string \<Rightarrow> string" where
  "strip s = rstrip (lstrip s)"

definition startswith :: "string \<Rightarrow> string \<Rightarrow> bool" where
  "startswith p s = (take (length p) s = p)"

fun find :: "string \<Rightarrow> string \<Rightarrow> nat option" where
  "find sub [] = (if sub = [] then Some 0 else None)"
| "find sub (c # cs) =
     (if startswith sub (c # cs) then Some 0 else map_option Suc (find sub cs))"

definition contains :: "string \<Rightarrow> string \<Rightarrow> bool" where
  "contains sub s = (find sub s \<noteq> None)"

fun rfind :: "string \<Rightarrow> string \<Rightarrow> nat option" where
  "rfind sub [] = (if sub = [] then Some 0 else None)"
| "rfind sub (c # cs) =
     (case rfind sub cs of
        Some i \<Rightarrow> Some (Suc i)
      | None \<Rightarrow> if startswith sub (c # cs) then Some 0 else None)"

function split_from :: "string \<Rightarrow> string \<Rightarrow> string \<Rightarrow> string list" where
  "split_from sep acc s =
     (if s = [] then [rev acc]
      else if sep \<noteq> [] \<and> startswith sep s then rev acc # split_from sep [] (drop (length sep) s)
      else split_from sep (hd s # acc) (tl s))"
  by pat_completeness auto
termination
  by (relation "measure (\<lambda>(sep, acc, s). length s)") auto

declare split_from.simps [simp del]

definition split_py :: "string \<Rightarrow> string \<Rightarrow> string list" where
  "split_py sep s = split_from sep [] s"

definition lower_char :: "char \<Rightarrow> char" where
  "lower_char c =
     (let n = (of_char c :: nat)
      in if (65 \<le> n \<and> n \<le> 90) \<or> (192 \<le> n \<and> n \<le> 222 \<and> n \<noteq> 215) then char_of (n + 32) else c)"

definition lower :: "string \<Rightarrow> string" where
  "lower s = map lower_char s"

section \<open>Gateway routes and the bearer-token check\<close>

text \<open>
  \<open>ollama_backend/src/api/endpoints.py\<close>. \<open>API_KEY\<close> is the environment variable
  \<open>OLLAMA_API_KEY\<close>, the empty string when unset. \<open>security = HTTPBearer(auto_error=False)\<close>
  hands \<open>verify_api_key\<close> the bearer token of the request, or \<open>None\<close> when the request
  carries no \<open>Authorization: Bearer\<close> header. A handler runs \<open>verify_api_key\<close> before its
  body exactly when it declares the parameter \<open>_: bool = Depends(verify_api_key)\<close>.
\<close>

datatype http_exception = HTTPException nat string

definition verify_api_key :: "string \<Rightarrow> string option \<Rightarrow> http_exception + bool" where
  "verify_api_key API_KEY credentials =
     (if API_KEY = [] then Inr True
      else (case credentials of
              None \<Rightarrow> Inl (HTTPException 401
                         ''API key required. Provide Authorization header: Bearer <key>'')
            | Some token \<Rightarrow>
                if token \<noteq> API_KEY then Inl (HTTPException 401 ''Invalid API key'')
                else Inr True))"

text \<open>The routes the application registers, in the order of the file.\<close>

datatype route =
    GET_health
  | GET_models
  | GET_api_tags
  | POST_completions
  | POST_chat
  | POST_api_chat
  | POST_chat_completions
  | POST_api_generate
  | POST_stream

text \<open>Whether the handler of a route declares \<open>Depends(verify_api_key)\<close>.\<close>

fun depends_on_verify_api_key :: "route \<Rightarrow> bool" where
  "depends_on_verify_api_key GET_health = False"
| "depends_on_verify_api_key GET_models = False"
| "depends_on_verify_api_key GET_api_tags = False"
| "depends_on_verify_api_key POST_completions = True"
| "depends_on_verify_api_key POST_chat = True"
| "depends_on_verify_api_key POST_api_chat = True"
| "depends_on_verify_api_key POST_chat_completions = True"
| "depends_on_verify_api_key POST_api_generate = True"
| "depends_on_verify_api_key POST_stream = True"

text \<open>
  What the framework does with a request before the handler's body: it resolves the
  handler's dependencies, and a dependency that raises ends the request with that error.
  \<open>Inr ()\<close> means the handler's body runs.
\<close>

definition admit :: "string \<Rightarrow> route \<Rightarrow> string option \<Rightarrow> http_exception + unit" where
  "admit API_KEY r credentials =
     (if depends_on_verify_api_key r
      then (case verify_api_key API_KEY credentials of Inl e \<Rightarrow> Inl e | Inr ok \<Rightarrow> Inr ())
      else Inr ())"

section \<open>The inference client: \<open>OllamaClient\<close>\<close>

text \<open>
  \<open>ollama_backend/src/models/ollama_client.py\<close>. The library's \<open>json.loads\<close> is a
  parameter of the model: a function from the text to the parsed value or to the message,
  line, column and position of the \<open>JSONDecodeError\<close> it raises.
\<close>

type_synonym json_loads = "string \<Rightarrow> (string \<times> nat \<times> nat \<times> nat) + json"

record OllamaConfig =
  base_url :: string
  timeout :: int
  max_retries :: int

text \<open>
  The client object. \<open>request_log\<close> is not a field of the source: it is the trace of the
  paths the client has requested over HTTP so far, oldest first, which the properties
  count. The body of a request never decides what the client does next and is left out.
\<close>

record OllamaClient =
  config :: OllamaConfig
  is_openai_compatible :: bool
  mode_detected :: bool
  request_log :: "string list"

text \<open>
  What the daemon does with the \<open>n\<close>-th request of the client on a path. For a
  \<open>client.post\<close> followed by \<open>raise_for_status()\<close> and \<open>json()\<close>: the parsed body, a
  \<open>httpx.TimeoutException\<close>, or any other exception. For \<open>client.stream\<close>: the lines of
  the body, a timeout, or any other exception. For \<open>client.get\<close>: a response with its
  status code and text, or an exception.
\<close>

datatype post_outcome = Replied json | TimedOut | Errored string

datatype stream_outcome = Streamed "string list" | StreamTimedOut | StreamErrored string

datatype get_outcome =
    Status nat string
  | ConnectError string
  | GetTimeout string
  | OtherError string string

record daemon =
  post :: "nat \<Rightarrow> string \<Rightarrow> post_outcome"
  stream :: "nat \<Rightarrow> string \<Rightarrow> stream_outcome"
  get :: "nat \<Rightarrow> string \<Rightarrow> get_outcome"

datatype client_error =
    TimeoutException
  | RequestError string
  | ConversionError string

definition sent :: "string \<Rightarrow> OllamaClient \<Rightarrow> OllamaClient" where
  "sent path c = c\<lparr>request_log := request_log c @ [path]\<rparr>"

text \<open>\<open>_make_request(payload, retry_count)\<close>\<close>

function make_request :: "daemon \<Rightarrow> OllamaClient \<Rightarrow> int \<Rightarrow> (client_error + json) \<times> OllamaClient" where
  "make_request d c retry_count =
     (case post d (length (request_log c)) ''/api/generate'' of
        Replied result \<Rightarrow> (Inr result, sent ''/api/generate'' c)
      | TimedOut \<Rightarrow>
          if retry_count < max_retries (config c)
          then make_request d (sent ''/api/generate'' c) (retry_count + 1)
          else (Inl TimeoutException, sent ''/api/generate'' c)
      | Errored m \<Rightarrow> (Inl (RequestError m), sent ''/api/generate'' c))"
  by pat_completeness auto
termination
  by (relation "measure (\<lambda>(d, c, retry_count). nat (max_retries (config c) - retry_count))")
     (auto simp: sent_def)

declare make_request.simps [simp del]

text \<open>
  The conversion of an OpenAI-shaped reply in \<open>_make_chat_request\<close>. It runs inside the
  \<open>try\<close>; the \<open>TypeError\<close>, \<open>AttributeError\<close> or \<open>KeyError\<close> it can raise on a reply of
  another shape is caught by \<open>except Exception\<close> and raised again.
\<close>

definition convert_chat_result :: "bool \<Rightarrow> string \<Rightarrow> json \<Rightarrow> client_error + json" where
  "convert_chat_result openai model result =
     (if \<not> openai then Inr result
      else (case result of
              JObj kvs \<Rightarrow>
                (case map_of kvs ''choices'' of
                   None \<Rightarrow> Inr result
                 | Some (JArr (first_choice # rest)) \<Rightarrow>
                     (case first_choice of
                        JObj fc \<Rightarrow>
                          Inr (JObj [(''model'', JStr model),
                                     (''message'', (case map_of fc ''message'' of
                                                     Some m \<Rightarrow> m | None \<Rightarrow> JObj [])),
                                     (''done'', JBool True)])
                      | _ \<Rightarrow> Inl (ConversionError ''AttributeError''))
                 | Some (JStr s) \<Rightarrow>
                     if s \<noteq> [] then Inl (ConversionError ''AttributeError'') else Inr result
                 | Some (JObj ckvs) \<Rightarrow>
                     if ckvs \<noteq> [] then Inl (ConversionError ''KeyError'') else Inr result
                 | Some v \<Rightarrow>
                     if truthy v then Inl (ConversionError ''TypeError'') else Inr result)
            | JArr xs \<Rightarrow>
                if JStr ''choices'' \<in> set xs then Inl (ConversionError ''AttributeError'')
                else Inr result
            | JStr s \<Rightarrow>
                if contains ''choices'' s then Inl (ConversionError ''AttributeError'')
                else Inr result
            | _ \<Rightarrow> Inl (ConversionError ''TypeError'')))"

definition chat_endpoint :: "OllamaClient \<Rightarrow> string" where
  "chat_endpoint c = (if is_openai_compatible c then ''/v1/chat/completions'' else ''/api/chat'')"

text \<open>\<open>_make_chat_request(payload, retry_count)\<close>; \<open>model\<close> is \<open>payload["model"]\<close>.\<close>

function make_chat_request ::
  "daemon \<Rightarrow> OllamaClient \<Rightarrow> string \<Rightarrow> int \<Rightarrow> (client_error + json) \<times> OllamaClient" where
  "make_chat_request d c model retry_count =
     (case post d (length (request_log c)) (chat_endpoint c) of
        Replied result \<Rightarrow>
          (convert_chat_result (is_openai_compatible c) model result, sent (chat_endpoint c) c)
      | TimedOut \<Rightarrow>
          if retry_count < max_retries (config c)
          then make_chat_request d (sent (chat_endpoint c) c) model (retry_count + 1)
          else (Inl TimeoutException, sent (chat_endpoint c) c)
      | Errored m \<Rightarrow> (Inl (RequestError m), sent (chat_endpoint c) c))"
  by pat_completeness auto
termination
  by (relation "measure (\<lambda>(d, c, model, retry_count). nat (max_retries (config c) - retry_count))")
     (auto simp: sent_def)

declare make_chat_request.simps [simp del]

text \<open>
  \<open>generate\<close> and \<open>chat\<close> return either the reply (\<open>stream=False\<close>) or an asynchronous
  generator (\<open>stream=True\<close>), which sends its request when the caller iterates it.
\<close>

datatype call_result = Reply json | Generator string

definition generate ::
  "daemon \<Rightarrow> OllamaClient \<Rightarrow> bool \<Rightarrow> (client_error + call_result) \<times> OllamaClient" where
  "generate d c stream_flag =
     (if stream_flag then (Inr (Generator ''/api/generate''), c)
      else (case make_request d c 0 of
              (Inl e, c') \<Rightarrow> (Inl e, c')
            | (Inr result, c') \<Rightarrow> (Inr (Reply result), c')))"

definition chat ::
  "daemon \<Rightarrow> OllamaClient \<Rightarrow> string \<Rightarrow> bool \<Rightarrow> (client_error + call_result) \<times> OllamaClient" where
  "chat d c model stream_flag =
     (if stream_flag then (Inr (Generator (chat_endpoint c)), c)
      else (case make_chat_request d c model 0 of
              (Inl e, c') \<Rightarrow> (Inl e, c')
            | (Inr result, c') \<Rightarrow> (Inr (Reply result), c')))"

text \<open>
  Iterating the generators to their end: \<open>_stream_response\<close> and
  \<open>_stream_chat_response\<close>. One request; lines that do not parse are skipped.
\<close>

fun stream_chunks :: "json_loads \<Rightarrow> string list \<Rightarrow> json list" where
  "stream_chunks loads [] = []"
| "stream_chunks loads (line # rest) =
     (if strip line \<noteq> []
      then (case loads line of
              Inr chunk \<Rightarrow> chunk # stream_chunks loads rest
            | Inl e \<Rightarrow> stream_chunks loads rest)
      else stream_chunks loads rest)"

fun stream_chat_chunks :: "json_loads \<Rightarrow> string list \<Rightarrow> json list" where
  "stream_chat_chunks loads [] = []"
| "stream_chat_chunks loads (line # rest) =
     (if strip line \<noteq> []
      then (let line' = (if startswith ''data: '' line then drop 6 line else line)
            in if strip line' = ''[DONE]'' then []
               else (case loads line' of
                       Inr chunk \<Rightarrow> chunk # stream_chat_chunks loads rest
                     | Inl e \<Rightarrow> stream_chat_chunks loads rest))
      else stream_chat_chunks loads rest)"

definition iterate_generator ::
  "json_loads \<Rightarrow> daemon \<Rightarrow> OllamaClient \<Rightarrow> string \<Rightarrow> (client_error + json list) \<times> OllamaClient" where
  "iterate_generator loads d c path =
     (case stream d (length (request_log c)) path of
        Streamed lines \<Rightarrow>
          (Inr ((if path = ''/api/generate'' then stream_chunks else stream_chat_chunks) loads lines),
           sent path c)
      | StreamTimedOut \<Rightarrow> (Inl TimeoutException, sent path c)
      | StreamErrored m \<Rightarrow> (Inl (RequestError m), sent path c))"

text \<open>A daemon none of whose requests is answered in time, and a client with three retries.\<close>

definition always_times_out :: daemon where
  "always_times_out =
     \<lparr>post = (\<lambda>n path. TimedOut), stream = (\<lambda>n path. StreamTimedOut),
      get = (\<lambda>n path. GetTimeout [])\<rparr>"

definition rejects_all_text :: json_loads where
  "rejects_all_text = (\<lambda>s. Inl (''Expecting value'', 1, 1, 0))"

definition client_with_three_retries :: OllamaClient where
  "client_with_three_retries =
     \<lparr>config = \<lparr>base_url = ''http://localhost:11434'', timeout = 300, max_retries = 3\<rparr>,
      is_openai_compatible = False, mode_detected = False, request_log = []\<rparr>"

subsection \<open>Dialect detection: \<open>__init__\<close> and \<open>health_check\<close>\<close>

definition is_native_ollama_tunnel :: "string \<Rightarrow> bool" where
  "is_native_ollama_tunnel url =
     (contains ''ollama-api.ctrlchecks.ai'' url \<or> startswith ''https://ollama-api'' url)"

text \<open>\<open>OllamaClient.__init__\<close>; it sends no request.\<close>

definition new_client :: "OllamaConfig \<Rightarrow> OllamaClient" where
  "new_client cfg =
     (let url = base_url cfg;
          openai = (\<not> is_native_ollama_tunnel url \<and>
                    (contains ''/v1/'' url \<or>
                     (contains ''api.openai.com'' url \<or> contains ''gateway'' (lower url))))
      in \<lparr>config = cfg,
          is_openai_compatible = (if is_native_ollama_tunnel url then False else openai),
          mode_detected = False,
          request_log = []\<rparr>)"

text \<open>
  The first lines of \<open>health_check\<close> choose the endpoint to probe, the fallback endpoint
  (\<open>None\<close> for a tunnel) and force the native dialect for a tunnel.
\<close>

definition probe_endpoint :: "OllamaClient \<Rightarrow> string" where
  "probe_endpoint c =
     (let url = base_url (config c)
      in if is_native_ollama_tunnel url then ''/api/tags''
         else if contains ''/v1/'' url \<or> is_openai_compatible c then ''/v1/models''
         else ''/api/tags'')"

definition probe_fallback :: "OllamaClient \<Rightarrow> string option" where
  "probe_fallback c =
     (let url = base_url (config c)
      in if is_native_ollama_tunnel url then None
         else if contains ''/v1/'' url \<or> is_openai_compatible c then Some ''/api/tags''
         else Some ''/v1/models'')"

definition force_native_for_tunnel :: "OllamaClient \<Rightarrow> OllamaClient" where
  "force_native_for_tunnel c =
     (if is_native_ollama_tunnel (base_url (config c)) then c\<lparr>is_openai_compatible := False\<rparr>
      else c)"

text \<open>The message for a status other than 200 when no fallback is tried.\<close>

definition status_message :: "string \<Rightarrow> string \<Rightarrow> nat \<Rightarrow> string \<Rightarrow> string" where
  "status_message url endpoint code body =
     (if code = 530
      then ''Cloudflare tunnel error (530): '' @ url
             @ '' is not accessible. Check if Cloudflare tunnel is running.''
      else if code = 403
      then ''Forbidden (403): Access denied to '' @ url @ endpoint
             @ ''. Check Cloudflare Access settings or tunnel configuration.''
      else if code = 404
      then ''Endpoint not found (404): '' @ url @ endpoint
             @ ''. Verify the remote Ollama endpoint is configured correctly.''
      else ''HTTP '' @ str_nat code @ '': '' @ take 200 body)"

text \<open>The inner \<open>try\<close>: the probe of the fallback endpoint.\<close>

definition try_fallback ::
  "daemon \<Rightarrow> OllamaClient \<Rightarrow> string \<Rightarrow> nat \<Rightarrow> string \<Rightarrow> (bool \<times> string) \<times> OllamaClient" where
  "try_fallback d c endpoint code fallback_endpoint =
     (case get d (length (request_log c)) fallback_endpoint of
        Status fcode fbody \<Rightarrow>
          if fcode = 200
          then ((True, []),
                (sent fallback_endpoint c)
                  \<lparr>is_openai_compatible := (fallback_endpoint = ''/v1/models''),
                   mode_detected := True\<rparr>)
          else ((False, ''Both endpoints failed: '' @ endpoint @ '' ('' @ str_nat code @ ''), ''
                          @ fallback_endpoint @ '' ('' @ str_nat fcode @ '')''),
                sent fallback_endpoint c)
      | ConnectError m \<Rightarrow>
          ((False, ''Primary endpoint '' @ endpoint @ '' returned '' @ str_nat code
                     @ '', fallback '' @ fallback_endpoint @ '' failed: '' @ m),
           sent fallback_endpoint c)
      | GetTimeout m \<Rightarrow>
          ((False, ''Primary endpoint '' @ endpoint @ '' returned '' @ str_nat code
                     @ '', fallback '' @ fallback_endpoint @ '' failed: '' @ m),
           sent fallback_endpoint c)
      | OtherError ty m \<Rightarrow>
          ((False, ''Primary endpoint '' @ endpoint @ '' returned '' @ str_nat code
                     @ '', fallback '' @ fallback_endpoint @ '' failed: '' @ m),
           sent fallback_endpoint c))"

definition health_check :: "daemon \<Rightarrow> OllamaClient \<Rightarrow> (bool \<times> string) \<times> OllamaClient" where
  "health_check d c =
     (let url = base_url (config c);
          endpoint = probe_endpoint c;
          fallback_endpoint = probe_fallback c;
          c1 = sent endpoint (force_native_for_tunnel c)
      in case get d (length (request_log c)) endpoint of
           Status code body \<Rightarrow>
             if code = 200
             then ((True, []),
                   c1\<lparr>is_openai_compatible := (endpoint = ''/v1/models''),
                      mode_detected := True\<rparr>)
             else (case (if (code = 404 \<or> code = 403) \<and> \<not> mode_detected c1
                         then fallback_endpoint else None) of
                     Some fb \<Rightarrow> try_fallback d c1 endpoint code fb
                   | None \<Rightarrow> ((False, status_message url endpoint code body), c1))
         | ConnectError m \<Rightarrow>
             ((False, ''Connection error: Cannot connect to '' @ url
                  @ ''. Check if Cloudflare tunnel is running and the remote endpoint is accessible.''),
              c1)
         | GetTimeout m \<Rightarrow>
             ((False, ''Timeout: '' @ url
                  @ '' did not respond within 10 seconds. The remote endpoint may be slow or unreachable.''),
              c1)
         | OtherError ty m \<Rightarrow>
             ((False, ''Health check failed: '' @ (if m \<noteq> [] then m else ty)), c1))"

text \<open>
  A daemon that answers 200 on every list endpoint, so that either dialect would be
  detected, and the configuration of a local daemon.
\<close>

definition serves_both_dialects :: daemon where
  "serves_both_dialects =
     \<lparr>post = (\<lambda>n path. Errored []), stream = (\<lambda>n path. StreamErrored []),
      get = (\<lambda>n path. Status 200 [])\<rparr>"

definition local_config :: OllamaConfig where
  "local_config = \<lparr>base_url = ''http://localhost:11434'', timeout = 300, max_retries = 3\<rparr>"

definition tunnel_config :: OllamaConfig where
  "tunnel_config = \<lparr>base_url = ''https://ollama-api.ctrlchecks.ai'', timeout = 300, max_retries = 3\<rparr>"

text \<open>A daemon that speaks only the OpenAI-compatible dialect.\<close>

definition serves_openai_only :: daemon where
  "serves_openai_only =
     \<lparr>post = (\<lambda>n path. Errored []), stream = (\<lambda>n path. StreamErrored []),
      get = (\<lambda>n path. if path = ''/v1/models'' then Status 200 [] else Status 404 [])\<rparr>"

text \<open>A client at the local daemon after the OpenAI-compatible dialect has been detected.\<close>

definition detected_openai_client :: OllamaClient where
  "detected_openai_client =
     \<lparr>config = local_config, is_openai_compatible = True, mode_detected = True,
      request_log = [''/api/tags'', ''/v1/models'']\<rparr>"

text \<open>
  \<open>n\<close> successive calls of \<open>health_check\<close> on one client. The daemon's answers are indexed
  by the number of requests the client has sent, so they may differ from call to call.
\<close>

fun health_checks :: "nat \<Rightarrow> daemon \<Rightarrow> OllamaClient \<Rightarrow> OllamaClient" where
  "health_checks 0 d c = c"
| "health_checks (Suc n) d c = health_checks n d (snd (health_check d c))"

text \<open>
  A daemon behind a base location with \<open>/v1/\<close> whose OpenAI-compatible list endpoint is
  missing at the first request and present afterwards, and that location.
\<close>

definition v1_config :: OllamaConfig where
  "v1_config = \<lparr>base_url = ''http://localhost:11434/v1/'', timeout = 300, max_retries = 3\<rparr>"

definition openai_endpoint_appears :: daemon where
  "openai_endpoint_appears =
     \<lparr>post = (\<lambda>n path. Errored []), stream = (\<lambda>n path. StreamErrored []),
      get = (\<lambda>n path. if n = 0 then Status 404 [] else Status 200 [])\<rparr>"

section \<open>Endpoint failover: \<open>TextProcessor._call_ollama_chat\<close>\<close>

text \<open>
  \<open>multimodal_backend/services/text_processor_ollama.py\<close>. \<open>tp_requests\<close> is not a field
  of the source: it is the trace of the URLs the processor has posted to, oldest first.
\<close>

record TextProcessor =
  tp_base_url :: string
  tp_fallback_url :: string
  tp_use_api :: bool
  tp_default_model :: string
  tp_api_checked :: bool
  tp_fallback_used :: bool
  tp_requests :: "string list"

text \<open>\<open>TextProcessor.__init__\<close>; the argument is the module constant \<open>OLLAMA_BASE_URL\<close>.\<close>

definition new_text_processor :: "string \<Rightarrow> TextProcessor" where
  "new_text_processor OLLAMA_BASE_URL =
     \<lparr>tp_base_url = OLLAMA_BASE_URL,
      tp_fallback_url = ''http://localhost:11434'',
      tp_use_api = False,
      tp_default_model = ''mistral_7b'',
      tp_api_checked = False,
      tp_fallback_used = False,
      tp_requests = []\<rparr>"

text \<open>
  \<open>_check_api_available\<close>: on every path it leaves \<open>use_api\<close> false and marks the check
  as done; the probe of the local backend it may send swallows every exception.
\<close>

definition check_api_available :: "TextProcessor \<Rightarrow> TextProcessor" where
  "check_api_available tp = tp\<lparr>tp_api_checked := True, tp_use_api := False\<rparr>"

text \<open>
  What one POST does: a response (status, text, parsed body), an exception of the HTTP
  library's connection class, or a timeout of the HTTP library.
\<close>

datatype attempt = Answered nat string json | ConnectFailure string | NoAnswerInTime

text \<open>
  The body of the outer \<open>try\<close>, for either HTTP library. With \<open>aiohttp\<close> the inner
  \<open>try\<close> turns the timeout into a plain \<open>Exception\<close>; with \<open>requests\<close> the library's
  timeout propagates.
\<close>

definition try_body :: "bool \<Rightarrow> attempt \<Rightarrow> error + json" where
  "try_body HAS_AIOHTTP a =
     (case a of
        Answered status body data \<Rightarrow>
          if status \<noteq> 200
          then (if status = 530 \<or> contains ''Cloudflare'' body
                then Inl (ConnectionError ''Cloudflare Tunnel error (530): Remote endpoint unavailable'')
                else Inl (RaisedException
                           (''Ollama API error ('' @ str_nat status @ ''): '' @ body)))
          else Inr data
      | ConnectFailure m \<Rightarrow> Inl (ClientError m)
      | NoAnswerInTime \<Rightarrow>
          if HAS_AIOHTTP then Inl (RaisedException ''Ollama request timeout (120s)'')
          else Inl (RequestsTimeout []))"

text \<open>
  When an exception leaves the body, the interpreter evaluates the expression of the first
  handler, \<open>(ConnectionError, aiohttp.ClientError, requests.exceptions.ConnectionError,
  requests.exceptions.TimeoutError)\<close>, before it can match the exception. \<open>aiohttp\<close> is a
  module global that exists only if the import at the top of the file succeeded
  (\<open>HAS_AIOHTTP\<close>). \<open>requests\<close> is a local variable of \<open>_call_ollama_chat\<close>, because the
  function contains the statement \<open>import requests\<close>, and that statement runs only in the
  branch \<open>if not HAS_AIOHTTP\<close>. So one of the two names is always unbound, and evaluating
  the expression raises instead of yielding the classes.
\<close>

definition first_handler_classes :: "bool \<Rightarrow> error + unit" where
  "first_handler_classes HAS_AIOHTTP =
     (if \<not> HAS_AIOHTTP then Inl (NameError ''aiohttp'')
      else Inl (UnboundLocalError ''requests''))"

text \<open>The exceptions the first handler names.\<close>

fun connection_class :: "error \<Rightarrow> bool" where
  "connection_class (ConnectionError m) = True"
| "connection_class (ClientError m) = True"
| "connection_class e = False"

text \<open>The parsing of the reply after the \<open>try\<close> statement (\<open>use_api\<close> is false).\<close>

definition membership :: "string \<Rightarrow> json \<Rightarrow> error + bool" where
  "membership k v =
     (case v of
        JObj kvs \<Rightarrow> Inr (has_key k kvs)
      | JArr xs \<Rightarrow> Inr (JStr k \<in> set xs)
      | JStr s \<Rightarrow> Inr (contains k s)
      | _ \<Rightarrow> Inl (TypeError (''argument of type '' @ [CHR 0x27] @ type_name v @ [CHR 0x27]
                                @ '' is not iterable'')))"

definition subscript :: "json \<Rightarrow> string \<Rightarrow> error + json" where
  "subscript v k =
     (case v of
        JObj kvs \<Rightarrow> (case map_of kvs k of Some x \<Rightarrow> Inr x | None \<Rightarrow> Inl (RaisedException k))
      | _ \<Rightarrow> Inl (TypeError (type_name v @ '' indices must be integers'')))"

definition parse_reply :: "json \<Rightarrow> error + json" where
  "parse_reply data =
     (case membership ''message'' data of
        Inl e \<Rightarrow> Inl e
      | Inr has_message \<Rightarrow>
          (case (if has_message
                 then (case subscript data ''message'' of
                         Inl e \<Rightarrow> Inl e
                       | Inr message \<Rightarrow> membership ''content'' message)
                 else Inr False) of
             Inl e \<Rightarrow> Inl e
           | Inr True \<Rightarrow>
               (case subscript data ''message'' of
                  Inl e \<Rightarrow> Inl e
                | Inr message \<Rightarrow> subscript message ''content'')
           | Inr False \<Rightarrow>
               (case membership ''response'' data of
                  Inl e \<Rightarrow> Inl e
                | Inr True \<Rightarrow> subscript data ''response''
                | Inr False \<Rightarrow> Inl (RaisedException ''Unexpected response format from Ollama''))))"

text \<open>
  \<open>_call_ollama_chat\<close>. \<open>server n url\<close> is what the \<open>n\<close>-th POST of the processor, to
  \<open>url\<close>, does. The handlers are written out as in the source; they are reached only if
  the first handler's expression yields its classes.
\<close>

function call_ollama_chat ::
  "bool \<Rightarrow> (nat \<Rightarrow> string \<Rightarrow> attempt) \<Rightarrow> TextProcessor \<Rightarrow> (error + json) \<times> TextProcessor" where
  "call_ollama_chat HAS_AIOHTTP server tp0 =
     (let tp1 = (if \<not> tp_api_checked tp0 then check_api_available tp0 else tp0);
          url = tp_base_url tp1 @ ''/api/chat'';
          tp = tp1\<lparr>tp_requests := tp_requests tp1 @ [url]\<rparr>
      in case try_body HAS_AIOHTTP (server (length (tp_requests tp1)) url) of
           Inr data \<Rightarrow> (parse_reply data, tp)
         | Inl e \<Rightarrow>
             (case first_handler_classes HAS_AIOHTTP of
                Inl name_error \<Rightarrow> (Inl name_error, tp)
              | Inr classes \<Rightarrow>
                  if connection_class e
                  then (if \<not> tp_fallback_used tp \<and> tp_base_url tp \<noteq> tp_fallback_url tp
                        then call_ollama_chat HAS_AIOHTTP server
                               (tp\<lparr>tp_base_url := tp_fallback_url tp, tp_fallback_used := True\<rparr>)
                        else (Inl (RaisedException
                                    (''Ollama API unavailable. Tried '' @ tp_base_url tp
                                       @ '' and fallback failed: '' @ str_of e)), tp))
                  else (case e of
                          RequestsTimeout m \<Rightarrow>
                            (Inl (RaisedException ''Ollama request timeout (120s)''), tp)
                        | _ \<Rightarrow> (Inl e, tp))))"
  by pat_completeness auto
termination
  by (relation "measure (\<lambda>(h, server, tp). if tp_fallback_used tp then 0 else 1)")
     (auto simp: check_api_available_def split: if_splits)

declare call_ollama_chat.simps [simp del]

text \<open>A primary location that refuses the connection while the fallback location answers.\<close>

definition primary_down :: "nat \<Rightarrow> string \<Rightarrow> attempt" where
  "primary_down n url =
     (if url = ''http://localhost:11434/api/chat''
      then Answered 200 [] (JObj [(''message'', JObj [(''content'', JStr ''hello'')])])
      else ConnectFailure ''Cannot connect to host ollama-api.ctrlchecks.ai:443'')"

section \<open>The job pipeline: \<open>workflow_worker/main.py\<close>\<close>

subsection \<open>The job store\<close>

text \<open>
  A row of the table \<open>workflow_generation_jobs\<close>, with the columns the worker writes.
  \<open>progress_logs\<close> is \<open>None\<close> when the column is null.
\<close>

record log_entry =
  log_timestamp :: nat
  log_message :: string
  log_progress :: "int option"
  log_phase :: "string option"

record job_row =
  status :: string
  progress_percentage :: int
  current_phase :: "string option"
  error_message :: "string option"
  workflow_result :: "json option"
  observability :: "json option"
  finished_at :: "nat option"
  progress_logs :: "log_entry list option"

text \<open>
  The part of the world the worker changes: the rows of the table by job id, the number of
  statements it has sent to the store (\<open>execute()\<close> calls), and the trace of its calls of
  \<open>call_ollama_chat\<close>. The last two are not in the source; the properties count them.
\<close>

record chat_call =
  cc_model :: string
  cc_messages :: "(string \<times> string) list"
  cc_temperature :: real
  cc_max_tokens :: nat
  cc_stream :: bool

record world =
  rows :: "string \<rightharpoonup> job_row"
  db_calls :: nat
  chat_calls :: "chat_call list"

text \<open>
  What the worker is given. \<open>supabase\<close> says whether the store client was initialised,
  \<open>db_ok n\<close> whether the \<open>n\<close>-th statement sent to the store succeeds (it raises
  otherwise), \<open>now\<close> is the reading of the clock. \<open>chat_reply\<close> and \<open>chat_stream\<close> are
  what \<open>call_ollama_chat\<close> ends with after its retries, for a call with \<open>stream=False\<close>
  (the body of the response) and with \<open>stream=True\<close> (the concatenated content of the
  chunks), or the exception it raises. \<open>loads\<close> and \<open>dumps\<close> are the library's
  \<open>json.loads\<close> and \<open>json.dumps(_, indent=2)\<close>; \<open>analysis_time\<close> and \<open>total_time\<close>
  are the two durations the worker measures, in milliseconds.
\<close>

record env =
  supabase :: bool
  db_ok :: "nat \<Rightarrow> bool"
  now :: nat
  chat_reply :: "chat_call \<Rightarrow> error + json"
  chat_stream :: "chat_call \<Rightarrow> error + string"
  loads :: json_loads
  dumps :: "json \<Rightarrow> string"
  analysis_time :: real
  total_time :: real

record WorkflowRequest =
  prompt :: string
  mode :: string

text \<open>\<open>if x:\<close> on an optional string and on an optional dictionary.\<close>

fun truthy_str :: "string option \<Rightarrow> bool" where
  "truthy_str None = False"
| "truthy_str (Some s) = (s \<noteq> [])"

fun truthy_opt :: "json option \<Rightarrow> bool" where
  "truthy_opt None = False"
| "truthy_opt (Some v) = truthy v"

text \<open>\<open>update_job_status\<close>: the dictionary \<open>update_data\<close> applied to the row.\<close>

definition apply_update ::
  "env \<Rightarrow> string \<Rightarrow> int option \<Rightarrow> string option \<Rightarrow> string option \<Rightarrow> json option \<Rightarrow> json option
     \<Rightarrow> job_row \<Rightarrow> job_row" where
  "apply_update e new_status progress phase err result obs row =
     row\<lparr>status := new_status,
         progress_percentage := (case progress of Some p \<Rightarrow> p | None \<Rightarrow> progress_percentage row),
         current_phase := (if truthy_str phase then phase else current_phase row),
         error_message := (if truthy_str err then err else error_message row),
         workflow_result := (if truthy_opt result then result else workflow_result row),
         observability := (if truthy_opt obs then obs else observability row),
         finished_at := (if new_status \<in> {''completed'', ''failed'', ''cancelled''}
                         then Some (now e) else finished_at row)\<rparr>"

definition update_job_status ::
  "env \<Rightarrow> string \<Rightarrow> string \<Rightarrow> int option \<Rightarrow> string option \<Rightarrow> string option \<Rightarrow> json option
     \<Rightarrow> json option \<Rightarrow> world \<Rightarrow> world" where
  "update_job_status e job_id new_status progress phase err result obs w =
     (if \<not> supabase e then w
      else if \<not> db_ok e (db_calls w) then w\<lparr>db_calls := Suc (db_calls w)\<rparr>
      else (case rows w job_id of
              None \<Rightarrow> w\<lparr>db_calls := Suc (db_calls w)\<rparr>
            | Some row \<Rightarrow>
                w\<lparr>db_calls := Suc (db_calls w),
                  rows := (rows w)(job_id \<mapsto>
                             apply_update e new_status progress phase err result obs row)\<rparr>))"

text \<open>
  \<open>add_progress_log\<close>: a select and an update inside one \<open>try\<close>; an exception of either
  statement, or of \<open>logs.append\<close> on a null column, is logged and ends the function.
\<close>

definition add_progress_log ::
  "env \<Rightarrow> string \<Rightarrow> string \<Rightarrow> int option \<Rightarrow> string option \<Rightarrow> world \<Rightarrow> world" where
  "add_progress_log e job_id message progress phase w =
     (if \<not> supabase e then w
      else if \<not> db_ok e (db_calls w) then w\<lparr>db_calls := Suc (db_calls w)\<rparr>
      else (case rows w job_id of
              None \<Rightarrow> w\<lparr>db_calls := Suc (db_calls w)\<rparr>
            | Some row \<Rightarrow>
                (case progress_logs row of
                   None \<Rightarrow> w\<lparr>db_calls := Suc (db_calls w)\<rparr>
                 | Some logs \<Rightarrow>
                     if \<not> db_ok e (Suc (db_calls w)) then w\<lparr>db_calls := Suc (Suc (db_calls w))\<rparr>
                     else w\<lparr>db_calls := Suc (Suc (db_calls w)),
                            rows := (rows w)(job_id \<mapsto>
                              row\<lparr>progress_logs :=
                                     Some (logs @ [\<lparr>log_timestamp = now e, log_message = message,
                                                     log_progress = progress, log_phase = phase\<rparr>]),
                                   progress_percentage :=
                                     (case progress of Some p \<Rightarrow> p | None \<Rightarrow> 0),
                                   current_phase := phase\<rparr>)\<rparr>)))"

subsection \<open>The daemon call\<close>

definition stream_result :: "string \<Rightarrow> json" where
  "stream_result full_content =
     JObj [(''message'', JObj [(''content'', JStr full_content)]), (''response'', JStr full_content)]"

text \<open>
  \<open>call_ollama_chat\<close> of the worker, with its retry loop summarised by the outcome the
  environment gives; the call is added to the trace.
\<close>

definition call_ollama_chat_worker :: "env \<Rightarrow> chat_call \<Rightarrow> world \<Rightarrow> (error + json) \<times> world" where
  "call_ollama_chat_worker e c w =
     (let w' = w\<lparr>chat_calls := chat_calls w @ [c]\<rparr>
      in if cc_stream c
         then (case chat_stream e c of
                 Inl err \<Rightarrow> (Inl err, w')
               | Inr full_content \<Rightarrow> (Inr (stream_result full_content), w'))
         else (chat_reply e c, w'))"

text \<open>
  \<open>response.get("message", {}).get("content", "") or response.get("response", "")\<close>
\<close>

definition response_content :: "json \<Rightarrow> error + json" where
  "response_content response =
     (case response of
        JObj kvs \<Rightarrow>
          (case (case map_of kvs ''message'' of Some m \<Rightarrow> m | None \<Rightarrow> JObj []) of
             JObj mkvs \<Rightarrow>
               (let content = (case map_of mkvs ''content'' of Some c \<Rightarrow> c | None \<Rightarrow> JStr [])
                in if truthy content then Inr content
                   else Inr (case map_of kvs ''response'' of Some r \<Rightarrow> r | None \<Rightarrow> JStr []))
           | m \<Rightarrow> Inl (AttributeError (type_name m) ''get''))
      | other \<Rightarrow> Inl (AttributeError (type_name other) ''get''))"

subsection \<open>Extraction of JSON from the model's text\<close>

text \<open>
  The fence stripping both phases apply before parsing:
  \<open>s.split("```json")[1].split("```")[0].strip()\<close> when the text contains \<open>```json\<close>,
  \<open>s.split("```")[1].split("```")[0].strip()\<close> when it contains \<open>```\<close>, the text itself
  otherwise. The indices are in range whenever the separator occurs in the text.
\<close>

definition strip_fences :: "string \<Rightarrow> string" where
  "strip_fences s =
     (if contains ''```json'' s then strip (split_py ''```'' (split_py ''```json'' s ! 1) ! 0)
      else if contains ''```'' s then strip (split_py ''```'' (split_py ''```'' s ! 1) ! 0)
      else s)"

definition analysis_fallback :: json where
  "analysis_fallback =
     JObj [(''summary'', JStr ''Analysis completed''), (''requirements'', JArr [])]"

text \<open>
  The \<open>try\<close> of the analyze phase with its bare \<open>except\<close>: whatever is raised, by the
  parser or by a content that is not text, the fallback object is the result.
\<close>

definition extract_analysis :: "json_loads \<Rightarrow> json \<Rightarrow> json" where
  "extract_analysis lds analysis_content =
     (case analysis_content of
        JStr s \<Rightarrow> (case lds (strip_fences s) of Inr v \<Rightarrow> v | Inl err \<Rightarrow> analysis_fallback)
      | other \<Rightarrow> analysis_fallback)"

definition decode_error :: "string \<times> nat \<times> nat \<times> nat \<Rightarrow> error" where
  "decode_error f = (case f of (m, l, c, p) \<Rightarrow> JSONDecodeError m l c p)"

text \<open>
  The \<open>try\<close> of the generation phase: the parsed workflow together with the stripped
  text, or the exception that leaves the statement; the handler catches a
  \<open>JSONDecodeError\<close> only. The content is text whenever the call was a streaming one.
  For a list or a dictionary the tests \<open>"```json" in content\<close> and \<open>"```" in content\<close>
  look for an element or a key, \<open>split\<close> is missing, and the parser refuses the value;
  for any other value the first test raises.
\<close>

definition extract_workflow :: "json_loads \<Rightarrow> json \<Rightarrow> error + (json \<times> string)" where
  "extract_workflow lds generation_content =
     (case generation_content of
        JStr s \<Rightarrow>
          (let text = strip_fences s
           in case lds text of
                Inr workflow \<Rightarrow> Inr (workflow, text)
              | Inl err \<Rightarrow>
                  (case (find ''{'' text, rfind ''}'' text) of
                     (Some start_idx, Some end_idx) \<Rightarrow>
                       if end_idx > start_idx
                       then (case lds (take (end_idx + 1 - start_idx) (drop start_idx text)) of
                               Inr workflow \<Rightarrow> Inr (workflow, text)
                             | Inl err2 \<Rightarrow> Inl (decode_error err2))
                       else Inl (ValueError (''Could not extract valid JSON from response: ''
                                              @ str_of (decode_error err)))
                   | _ \<Rightarrow> Inl (ValueError (''Could not extract valid JSON from response: ''
                                            @ str_of (decode_error err)))))
      | JArr xs \<Rightarrow>
          if JStr ''```json'' \<in> set xs \<or> JStr ''```'' \<in> set xs
          then Inl (AttributeError ''list'' ''split'')
          else Inl (TypeError ''the JSON object must be str, bytes or bytearray, not list'')
      | JObj kvs \<Rightarrow>
          if has_key ''```json'' kvs \<or> has_key ''```'' kvs
          then Inl (AttributeError ''dict'' ''split'')
          else Inl (TypeError ''the JSON object must be str, bytes or bytearray, not dict'')
      | other \<Rightarrow>
          Inl (TypeError (''argument of type '' @ [CHR 0x27] @ type_name other @ [CHR 0x27]
                           @ '' is not iterable'')))"


subsection \<open>The pipeline: \<open>generate_workflow\<close>\<close>

text \<open>\<open>len(s.split())\<close>: the number of maximal runs of characters that are not whitespace.\<close>

fun count_words :: "bool \<Rightarrow> string \<Rightarrow> nat" where
  "count_words in_word [] = 0"
| "count_words in_word (c # cs) =
     (if py_isspace c then count_words False cs
      else (if in_word then 0 else 1) + count_words True cs)"

definition word_count :: "string \<Rightarrow> nat" where
  "word_count s = count_words False s"

text \<open>\<open>int(x)\<close> of a float: truncation towards zero.\<close>

definition py_int :: "real \<Rightarrow> int" where
  "py_int x = (if 0 \<le> x then \<lfloor>x\<rfloor> else \<lceil>x\<rceil>)"

definition observability_dict :: "int \<Rightarrow> int \<Rightarrow> int \<Rightarrow> int \<Rightarrow> json" where
  "observability_dict model_load inference total_ms output_tokens =
     JObj [(''model_load_time_ms'', JInt model_load),
           (''inference_time_ms'', JInt inference),
           (''total_time_ms'', JInt total_ms),
           (''input_tokens'', JInt 0),
           (''output_tokens'', JInt output_tokens)]"

definition analysis_prompt :: "WorkflowRequest \<Rightarrow> string" where
  "analysis_prompt request =
     ''Analyze this workflow request and provide a JSON summary:'' @ [CHR 0x0A] @
     ''        '' @ [CHR 0x0A] @
     ''User Prompt: '' @ prompt request @ [CHR 0x0A] @
     ''Mode: '' @ mode request @ [CHR 0x0A] @
     [CHR 0x0A] @
     ''Return JSON with: summary, requirements (array), triggerType, requiredNodes (array), dataFlow, outputAction.''"

definition analysis_call :: "WorkflowRequest \<Rightarrow> chat_call" where
  "analysis_call request =
     \<lparr>cc_model = ''mistral:7b'',
      cc_messages = [(''system'', ''You are a workflow analysis assistant. Return only valid JSON.''),
                     (''user'', analysis_prompt request)],
      cc_temperature = 0.7,
      cc_max_tokens = 1024,
      cc_stream = False\<rparr>"

definition generation_prompt :: "env \<Rightarrow> WorkflowRequest \<Rightarrow> json \<Rightarrow> string" where
  \<open>generation_prompt e request analysis_result =
     ''Generate a complete workflow JSON based on this analysis:'' @ [CHR 0x0A] @
     [CHR 0x0A] @
     ''Analysis: '' @ dumps e analysis_result @ [CHR 0x0A] @
     [CHR 0x0A] @
     ''User Request: '' @ prompt request @ [CHR 0x0A] @
     ''Mode: '' @ mode request @ [CHR 0x0A] @
     [CHR 0x0A] @
     ''Return ONLY valid JSON with this structure:'' @ [CHR 0x0A] @
     ''{'' @ [CHR 0x0A] @
     ''  "name": "Workflow name",'' @ [CHR 0x0A] @
     ''  "summary": "Brief description",'' @ [CHR 0x0A] @
     ''  "nodes": [{"id": "...", "type": "...", "position": {"x": 0, "y": 0}, "config": {}}],'' @ [CHR 0x0A] @
     ''  "edges": [{"id": "...", "source": "...", "target": "..."}]'' @ [CHR 0x0A] @
     ''}'' @ [CHR 0x0A] @
     [CHR 0x0A] @
     ''Return ONLY JSON, no markdown, no explanations.''\<close>

definition generation_call :: "env \<Rightarrow> WorkflowRequest \<Rightarrow> json \<Rightarrow> chat_call" where
  "generation_call e request analysis_result =
     \<lparr>cc_model = ''qwen2.5:7b'',
      cc_messages = [(''system'', ''You are a workflow generation expert. Return ONLY valid JSON, no markdown.''),
                     (''user'', generation_prompt e request analysis_result)],
      cc_temperature = 0.7,
      cc_max_tokens = 4096,
      cc_stream = True\<rparr>"

text \<open>
  The handler \<open>except Exception as e\<close> that encloses the whole body: the job is written
  as failed with \<open>str(e)\<close> and the observability figures collected so far.
\<close>

definition on_exception :: "env \<Rightarrow> string \<Rightarrow> json \<Rightarrow> error \<Rightarrow> world \<Rightarrow> world" where
  "on_exception e job_id obs err w =
     update_job_status e job_id ''failed'' None None (Some (str_of err)) None (Some obs) w"

text \<open>
  The body of \<open>generate_workflow\<close> is one sequence of statements; it is written here in
  three parts, cut where the source's comments cut it: from validation to the end
  (\<open>validation_phase\<close>), from the log entry \<open>Analysis complete\<close> to the extraction of the
  workflow (\<open>generation_phase\<close>), and the start with the analysis
  (\<open>generate_workflow\<close>). The last \<open>json.dumps(workflow)\<close> cannot raise on a value of
  type \<open>json\<close> and its result is discarded.
\<close>

definition validation_phase :: "env \<Rightarrow> string \<Rightarrow> int \<Rightarrow> int \<Rightarrow> json \<Rightarrow> string \<Rightarrow> world \<Rightarrow> world" where
  "validation_phase e job_id model_load inference workflow generation_content w =
     (case ensure_complete_workflow_json workflow of
        Inl err \<Rightarrow> on_exception e job_id (observability_dict model_load inference 0 0) err w
      | Inr workflow' \<Rightarrow>
          (let obs = observability_dict model_load inference (py_int (total_time e))
                       (int (word_count generation_content));
               w1 = add_progress_log e job_id ''Workflow generation complete'' (Some 90)
                      (Some ''validation'') w;
               w2 = add_progress_log e job_id ''Validating workflow...'' (Some 95)
                      (Some ''validation'') w1
           in update_job_status e job_id ''completed'' (Some 100) (Some ''validation'') None
                (Some workflow') (Some obs) w2))"

definition generation_phase :: "env \<Rightarrow> string \<Rightarrow> WorkflowRequest \<Rightarrow> int \<Rightarrow> int \<Rightarrow> json \<Rightarrow> world \<Rightarrow> world" where
  "generation_phase e job_id request model_load inference analysis_result w =
     (let obs = observability_dict model_load inference 0 0;
          w1 = add_progress_log e job_id ''Analysis complete'' (Some 30)
                 (Some ''workflow_generation'') w;
          w2 = add_progress_log e job_id ''Generating workflow structure...'' (Some 40)
                 (Some ''workflow_generation'') w1
      in case call_ollama_chat_worker e (generation_call e request analysis_result) w2 of
           (Inl err, w3) \<Rightarrow> on_exception e job_id obs err w3
         | (Inr generation_response, w3) \<Rightarrow>
             (case response_content generation_response of
                Inl err \<Rightarrow> on_exception e job_id obs err w3
              | Inr generation_content \<Rightarrow>
                  (case extract_workflow (loads e) generation_content of
                     Inl err \<Rightarrow> on_exception e job_id obs err w3
                   | Inr (workflow, text) \<Rightarrow>
                       validation_phase e job_id model_load inference workflow text w3)))"

definition generate_workflow :: "env \<Rightarrow> string \<Rightarrow> WorkflowRequest \<Rightarrow> world \<Rightarrow> world" where
  "generate_workflow e job_id request w =
     (let w1 = update_job_status e job_id ''processing'' (Some 0) (Some ''analyze'') None None None w;
          w2 = add_progress_log e job_id ''Starting workflow generation'' (Some 0) (Some ''analyze'') w1;
          w3 = add_progress_log e job_id ''Analyzing requirements...'' (Some 10) (Some ''analyze'') w2
      in case call_ollama_chat_worker e (analysis_call request) w3 of
           (Inl err, w4) \<Rightarrow> on_exception e job_id (observability_dict 0 0 0 0) err w4
         | (Inr analysis_response, w4) \<Rightarrow>
             (let model_load = py_int (analysis_time e * 0.2);
                  inference = py_int (analysis_time e * 0.8)
              in case response_content analysis_response of
                   Inl err \<Rightarrow> on_exception e job_id (observability_dict model_load inference 0 0) err w4
                 | Inr analysis_content \<Rightarrow>
                     generation_phase e job_id request model_load inference
                       (extract_analysis (loads e) analysis_content) w4))"

subsection \<open>A concrete run\<close>

text \<open>
  A job row as the API creates it, a store that holds it, and an environment whose daemon
  answers the analysis with prose and the generation with a fenced workflow. \<open>demo_loads\<close>
  agrees with \<open>json.loads\<close> on the texts that reach it in these runs, \<open>demo_dumps\<close>
  with \<open>json.dumps(_, indent=2)\<close> on the fallback analysis.
\<close>

definition pending_row :: job_row where
  "pending_row =
     \<lparr>status = ''pending'', progress_percentage = 0, current_phase = None, error_message = None,
      workflow_result = None, observability = None, finished_at = None, progress_logs = Some []\<rparr>"

definition demo_world :: world where
  "demo_world = \<lparr>rows = [''job-1'' \<mapsto> pending_row], db_calls = 0, chat_calls = []\<rparr>"

definition demo_request :: WorkflowRequest where
  "demo_request = \<lparr>prompt = ''Send a mail every morning'', mode = ''create''\<rparr>"

definition demo_workflow_text :: string where
  \<open>demo_workflow_text = ''{"name": "Morning mail", "nodes": [{}], "edges": []}''\<close>

definition demo_workflow :: json where
  "demo_workflow =
     JObj [(''name'', JStr ''Morning mail''), (''nodes'', JArr [JObj []]), (''edges'', JArr [])]"

definition demo_loads :: json_loads where
  "demo_loads s =
     (if s = demo_workflow_text then Inr demo_workflow
      else Inl (''Expecting value'', 1, 1, 0))"

definition demo_dumps :: "json \<Rightarrow> string" where
  \<open>demo_dumps v =
     (if v = analysis_fallback
      then ''{'' @ [CHR 0x0A] @ ''  "summary": "Analysis completed",'' @ [CHR 0x0A] @
           ''  "requirements": []'' @ [CHR 0x0A] @ ''}''
      else ''null'')\<close>

definition demo_env :: env where
  "demo_env =
     \<lparr>supabase = True,
      db_ok = (\<lambda>n. True),
      now = 0,
      chat_reply = (\<lambda>c. Inr (JObj [(''message'', JObj [(''content'', JStr ''I cannot help with that'')])])),
      chat_stream = (\<lambda>c. Inr (''```json'' @ [CHR 0x0A] @ demo_workflow_text @ [CHR 0x0A] @ ''```'')),
      loads = demo_loads,
      dumps = demo_dumps,
      analysis_time = 0,
      total_time = 0\<rparr>"




definition no_workflow_env :: env where
  "no_workflow_env = demo_env\<lparr>chat_stream := (\<lambda>c. Inr ''Sorry, no workflow'')\<rparr>"

definition workflow_in_prose :: string where
  "workflow_in_prose = ''Here you go: '' @ demo_workflow_text @ '' Enjoy!''"



(*THEOREMS*)

section \<open>Properties of workflow validation\<close>

lemma map_of_dict_set: "map_of (dict_set k v kvs) k' = (if k' = k then Some v else map_of kvs k')"
  by (induction kvs) auto


lemma has_key_dict_set: "has_key k' (dict_set k v kvs) = (k' = k \<or> has_key k' kvs)"
  by (simp add: has_key_def map_of_dict_set)

lemma has_key_set_if_missing: "has_key k' (set_if_missing k v kvs) = (k' = k \<or> has_key k' kvs)"
  by (auto simp: set_if_missing_def has_key_dict_set)

lemma list_field_dict_set:
  "list_field k' (dict_set k v w) = (if k' = k then (case v of JArr xs \<Rightarrow> xs | _ \<Rightarrow> []) else list_field k' w)"
  by (simp add: list_field_def map_of_dict_set)

lemma list_field_ensure_list:
  "list_field k' (ensure_list_field k w) = list_field k' w"
  by (auto simp: ensure_list_field_def list_field_def map_of_dict_set split: option.splits json.splits)

lemma list_field_ensure_str:
  "list_field k' (ensure_str_field k d w) = list_field k' w"
  apply (auto simp: ensure_str_field_def list_field_def map_of_dict_set split: option.splits json.splits)
  done

lemma ensure_unfold:
  assumes "w0 \<noteq> []"
  shows "ensure_complete_workflow_json (JObj w0) =
     (case validate_edges 0 (list_field ''edges'' w0) of
        Inl e \<Rightarrow> Inl e
      | Inr edges' \<Rightarrow> Inr (JObj (dict_set ''edges'' (JArr edges')
           (dict_set ''nodes'' (JArr (fix_nodes 0 (list_field ''nodes'' w0)))
             (ensure_str_field ''summary'' ''AI-generated workflow''
               (ensure_str_field ''name'' ''Generated Workflow''
                 (ensure_list_field ''edges'' (ensure_list_field ''nodes'' w0))))))))"
  using assms
  by (simp add: ensure_complete_workflow_json_def Let_def list_field_dict_set
        list_field_ensure_list list_field_ensure_str split: sum.splits)


lemma length_fix_nodes: "length (fix_nodes i ns) = length ns"
  by (induction ns arbitrary: i) auto

lemma nth_fix_nodes: "k < length ns \<Longrightarrow> fix_nodes i ns ! k = fix_node (i + k) (ns ! k)"
proof (induction ns arbitrary: i k)
  case Nil
  then show ?case by simp
next
  case (Cons n ns)
  then show ?case by (cases k) auto
qed

lemma complete_default_node: "complete_node (default_node i)"
  by (simp add: complete_node_def default_node_def has_key_def)

lemma complete_fix_node: "complete_node (fix_node i n)"
proof (cases n)
  case (JObj kvs)
  then show ?thesis by (simp add: complete_node_def has_key_set_if_missing)
qed (simp_all add: complete_default_node)

lemma complete_fix_nodes: "n \<in> set (fix_nodes i ns) \<Longrightarrow> complete_node n"
  by (induction ns arbitrary: i) (auto simp: complete_fix_node)

lemma fix_node_not_dict: "\<not> is_dict n \<Longrightarrow> fix_node i n = default_node i"
  by (cases n) auto

lemma validate_edges_all_ok:
  "(\<forall>e \<in> set es. edge_ok e) \<Longrightarrow> \<exists>es'. validate_edges i es = Inr es'"
proof (induction es arbitrary: i)
  case Nil
  then show ?case by simp
next
  case (Cons e es)
  then obtain es' where "validate_edges (Suc i) es = Inr es'" by fastforce
  with Cons.prems show ?case
    by (cases e) (auto simp: edge_ok_def Let_def has_key_set_if_missing)
qed

lemma validate_edges_first_bad:
  "(\<forall>e \<in> set good. edge_ok e) \<Longrightarrow> \<not> edge_ok bad \<Longrightarrow>
     validate_edges i (good @ bad # rest) = Inl (edge_error (i + length good) bad)"
proof (induction good arbitrary: i)
  case Nil
  then show ?case
    by (cases bad) (auto simp: edge_ok_def edge_error_def Let_def has_key_set_if_missing)
next
  case (Cons e good)
  then have "validate_edges (Suc i) (good @ bad # rest) = Inl (edge_error (Suc i + length good) bad)"
    by simp
  with Cons.prems show ?case
    by (cases e) (auto simp: edge_ok_def Let_def has_key_set_if_missing)
qed

lemma validate_edges_Inr:
  "validate_edges i es = Inr es' \<Longrightarrow>
     length es' = length es \<and> (\<forall>e \<in> set es. edge_ok e) \<and> (\<forall>e \<in> set es'. complete_edge e)"
proof (induction es arbitrary: i es')
  case Nil
  then show ?case by simp
next
  case (Cons e es)
  then show ?case
    by (cases e)
       (auto simp: edge_ok_def complete_edge_def Let_def has_key_set_if_missing
             split: if_splits sum.splits)
qed

lemma first_bad_edge:
  assumes "k < length es" and "\<not> edge_ok (es ! k)"
  shows "\<exists>j\<le>k. \<not> edge_ok (es ! j) \<and> (\<forall>l<j. edge_ok (es ! l)) \<and>
           validate_edges 0 es = Inl (edge_error j (es ! j))"
proof -
  from assms have ex: "\<exists>e \<in> set es. \<not> edge_ok e"
    using nth_mem by blast
  obtain good bad rest where
    es: "es = good @ bad # rest" and bad: "\<not> edge_ok bad" and good: "\<forall>e \<in> set good. \<not> \<not> edge_ok e"
    using split_list_first_prop [OF ex] by blast
  from good have good': "\<forall>e \<in> set good. edge_ok e" by simp
  have j: "es ! length good = bad" by (simp add: es)
  have le: "length good \<le> k"
  proof (rule ccontr)
    assume "\<not> length good \<le> k"
    then have "k < length good" by simp
    then have "es ! k \<in> set good" by (simp add: es nth_append)
    with good' assms(2) show False by blast
  qed
  have early: "\<forall>l<length good. edge_ok (es ! l)"
    using good' by (simp add: es nth_append)
  have v: "validate_edges 0 es = Inl (edge_error (length good) (es ! length good))"
    using validate_edges_first_bad [OF good' bad, of 0 rest] by (simp add: es)
  have nb: "\<not> edge_ok (es ! length good)" using bad j by simp
  show ?thesis
    by (intro exI [of _ "length good"] conjI le nb early v)
qed

lemma ensure_example:
  "ensure_complete_workflow_json (JObj [(''nodes'', JArr [JObj []]), (''edges'', JArr [])]) =
     Inr (JObj [(''nodes'', JArr [JObj [(''id'', JStr ''node_1''), (''type'', JStr ''noop''),
                                        (''position'', JObj [(''x'', JInt 250), (''y'', JInt 100)]),
                                        (''config'', JObj [])]]),
                (''edges'', JArr []),
                (''name'', JStr ''Generated Workflow''),
                (''summary'', JStr ''AI-generated workflow'')])"
  by (simp add: ensure_complete_workflow_json_def ensure_list_field_def ensure_str_field_def
        list_field_def set_if_missing_def has_key_def default_position_def
        str_nat.simps digit_char_def)

lemma ensure_accepts:
  assumes "wkf \<noteq> []" and "\<forall>e \<in> set (list_field ''edges'' wkf). edge_ok e"
  shows "\<exists>w. ensure_complete_workflow_json (JObj wkf) = Inr (JObj w) \<and>
             list_field ''nodes'' w = fix_nodes 0 (list_field ''nodes'' wkf) \<and>
             (\<exists>es'. validate_edges 0 (list_field ''edges'' wkf) = Inr es' \<and> list_field ''edges'' w = es')"
proof -
  from assms(2) obtain es' where es': "validate_edges 0 (list_field ''edges'' wkf) = Inr es'"
    using validate_edges_all_ok by blast
  show ?thesis
    using assms(1) es'
    by (simp add: ensure_unfold list_field_dict_set)
qed

lemma ensure_rejects:
  assumes "wkf \<noteq> []" and "validate_edges 0 (list_field ''edges'' wkf) = Inl e"
  shows "ensure_complete_workflow_json (JObj wkf) = Inl e"
  using assms by (simp add: ensure_unfold)

lemma ensure_rejects_bad_edge:
  assumes "wkf \<noteq> []" and "map_of wkf ''edges'' = Some (JArr es)" and "k < length es"
    and "\<not> edge_ok (es ! k)"
  shows "\<exists>j\<le>k. \<not> edge_ok (es ! j) \<and> (\<forall>l<j. edge_ok (es ! l)) \<and>
           ensure_complete_workflow_json (JObj wkf) = Inl (edge_error j (es ! j))"
proof -
  have lf: "list_field ''edges'' wkf = es" using assms(2) by (simp add: list_field_def)
  from first_bad_edge [OF assms(3,4)] obtain j where
    j: "j \<le> k" "\<not> edge_ok (es ! j)" "\<forall>l<j. edge_ok (es ! l)"
       "validate_edges 0 es = Inl (edge_error j (es ! j))"
    by blast
  have "ensure_complete_workflow_json (JObj wkf) = Inl (edge_error j (es ! j))"
    using ensure_rejects [OF assms(1)] j(4) lf by simp
  with j show ?thesis by (intro exI [of _ j] conjI) 
qed

lemma ensure_rejects_first_bad_edge:
  assumes "wkf \<noteq> []" and "map_of wkf ''edges'' = Some (JArr es)" and "k < length es"
    and "\<not> edge_ok (es ! k)" and "\<forall>l<k. edge_ok (es ! l)"
  shows "ensure_complete_workflow_json (JObj wkf) = Inl (edge_error k (es ! k))"
proof -
  from ensure_rejects_bad_edge [OF assms(1-4)] obtain j where
    j: "j \<le> k" "\<not> edge_ok (es ! j)"
       "ensure_complete_workflow_json (JObj wkf) = Inl (edge_error j (es ! j))"
    by blast
  have "j = k"
  proof (rule ccontr)
    assume "j \<noteq> k"
    with j(1) have "j < k" by simp
    with assms(5) j(2) show False by blast
  qed
  with j(3) show ?thesis by simp
qed

lemma ensure_Inr_shape:
  assumes "ensure_complete_workflow_json v = Inr w"
  shows "\<exists>wa kvs es'. v = JObj wa \<and> wa \<noteq> [] \<and> w = JObj kvs \<and>
           validate_edges 0 (list_field ''edges'' wa) = Inr es' \<and>
           list_field ''edges'' kvs = es' \<and>
           list_field ''nodes'' kvs = fix_nodes 0 (list_field ''nodes'' wa)"
proof (cases v)
  case (JObj wa)
  show ?thesis
  proof (cases "wa = []")
    case True
    with JObj assms show ?thesis by (simp add: ensure_complete_workflow_json_def)
  next
    case False
    with JObj assms show ?thesis
      by (auto simp: ensure_unfold list_field_dict_set split: sum.splits)
  qed
qed (use assms in \<open>simp_all add: ensure_complete_workflow_json_def\<close>)

lemma ensure_top_level:
  "\<not> truthy v \<or> \<not> is_dict v \<Longrightarrow>
     ensure_complete_workflow_json v = Inl (ValueError ''Invalid workflow: must be an object'')"
  by (auto simp: ensure_complete_workflow_json_def)

lemma edge_error_dict: "edge_error k (JObj edge) =
   ValueError (''Invalid edge at index '' @ str_nat k @ '': missing source or target'')"
  by (simp add: edge_error_def)

lemma edge_error_not_dict: "\<not> is_dict e \<Longrightarrow> edge_error k e =
   ValueError (''Invalid edge at index '' @ str_nat k @ '': must be an object'')"
  by (simp add: edge_error_def)

lemma not_dict_not_ok: "\<not> is_dict e \<Longrightarrow> \<not> edge_ok e"
  by (cases e) (simp_all add: edge_ok_def)

text \<open>
  Claim C6. Validation defaulting. The workflow \<open>{"nodes": [{}], "edges": []}\<close> is
  returned with its single node completed to id \<open>node_1\<close>, type \<open>noop\<close>, position
  \<open>{x: 250, y: 100}\<close> and empty config. Nodes never make validation fail: a non-empty
  workflow object whose edges all have \<open>source\<close> and \<open>target\<close> is accepted whatever
  its node list holds, no node is dropped and every returned node has all four fields. A
  workflow holding an edge object without \<open>source\<close> or \<open>target\<close> at index \<open>k\<close> is
  rejected with the \<open>ValueError\<close> of the first offending edge, whose message carries
  that edge's index; when no earlier edge offends, the message is
  \<open>Invalid edge at index k: missing source or target\<close>.
\<close>

theorem validation_defaulting:
  "ensure_complete_workflow_json (JObj [(''nodes'', JArr [JObj []]), (''edges'', JArr [])]) =
     Inr (JObj [(''nodes'', JArr [JObj [(''id'', JStr ''node_1''), (''type'', JStr ''noop''),
                                        (''position'', JObj [(''x'', JInt 250), (''y'', JInt 100)]),
                                        (''config'', JObj [])]]),
                (''edges'', JArr []),
                (''name'', JStr ''Generated Workflow''),
                (''summary'', JStr ''AI-generated workflow'')])
   \<and> (wa \<noteq> [] \<and> (\<forall>e \<in> set (list_field ''edges'' wa). edge_ok e) \<longrightarrow>
        (\<exists>w. ensure_complete_workflow_json (JObj wa) = Inr (JObj w) \<and>
             list_field ''nodes'' w = fix_nodes 0 (list_field ''nodes'' wa) \<and>
             length (list_field ''nodes'' w) = length (list_field ''nodes'' wa) \<and>
             (\<forall>n \<in> set (list_field ''nodes'' w). complete_node n)))
   \<and> (wb \<noteq> [] \<and> map_of wb ''edges'' = Some (JArr es) \<and> k < length es \<and> es ! k = JObj edge \<and>
        (\<not> has_key ''source'' edge \<or> \<not> has_key ''target'' edge) \<longrightarrow>
        (\<exists>j\<le>k. \<not> edge_ok (es ! j) \<and> (\<forall>l<j. edge_ok (es ! l)) \<and>
                ensure_complete_workflow_json (JObj wb) = Inl (edge_error j (es ! j))) \<and>
        ((\<forall>l<k. edge_ok (es ! l)) \<longrightarrow>
           ensure_complete_workflow_json (JObj wb) =
             Inl (ValueError (''Invalid edge at index '' @ str_nat k @ '': missing source or target''))))"
proof (intro conjI impI)
  show "ensure_complete_workflow_json (JObj [(''nodes'', JArr [JObj []]), (''edges'', JArr [])]) =
     Inr (JObj [(''nodes'', JArr [JObj [(''id'', JStr ''node_1''), (''type'', JStr ''noop''),
                                        (''position'', JObj [(''x'', JInt 250), (''y'', JInt 100)]),
                                        (''config'', JObj [])]]),
                (''edges'', JArr []),
                (''name'', JStr ''Generated Workflow''),
                (''summary'', JStr ''AI-generated workflow'')])"
    by (rule ensure_example)
next
  assume a: "wa \<noteq> [] \<and> (\<forall>e \<in> set (list_field ''edges'' wa). edge_ok e)"
  then obtain w where w: "ensure_complete_workflow_json (JObj wa) = Inr (JObj w)"
      "list_field ''nodes'' w = fix_nodes 0 (list_field ''nodes'' wa)"
    using ensure_accepts [of wa] by blast
  have "length (list_field ''nodes'' w) = length (list_field ''nodes'' wa)"
    by (simp add: w(2) length_fix_nodes)
  moreover have "\<forall>n \<in> set (list_field ''nodes'' w). complete_node n"
    by (simp add: w(2) complete_fix_nodes)
  ultimately show "\<exists>w. ensure_complete_workflow_json (JObj wa) = Inr (JObj w) \<and>
             list_field ''nodes'' w = fix_nodes 0 (list_field ''nodes'' wa) \<and>
             length (list_field ''nodes'' w) = length (list_field ''nodes'' wa) \<and>
             (\<forall>n \<in> set (list_field ''nodes'' w). complete_node n)"
    using w by (intro exI [of _ w] conjI)
next
  assume b: "wb \<noteq> [] \<and> map_of wb ''edges'' = Some (JArr es) \<and> k < length es \<and> es ! k = JObj edge \<and>
        (\<not> has_key ''source'' edge \<or> \<not> has_key ''target'' edge)"
  then have bad: "\<not> edge_ok (es ! k)" by (auto simp: edge_ok_def)
  from b bad show "\<exists>j\<le>k. \<not> edge_ok (es ! j) \<and> (\<forall>l<j. edge_ok (es ! l)) \<and>
                ensure_complete_workflow_json (JObj wb) = Inl (edge_error j (es ! j))"
    using ensure_rejects_bad_edge [of wb es k] by simp
  assume "\<forall>l<k. edge_ok (es ! l)"
  with b bad have "ensure_complete_workflow_json (JObj wb) = Inl (edge_error k (es ! k))"
    using ensure_rejects_first_bad_edge [of wb es k] by simp
  with b show "ensure_complete_workflow_json (JObj wb) =
             Inl (ValueError (''Invalid edge at index '' @ str_nat k @ '': missing source or target''))"
    by (simp add: edge_error_dict)
qed

theorem validation_defaulting_witness:
  "ensure_complete_workflow_json (JObj [(''nodes'', JArr [JInt 7])]) =
     Inr (JObj [(''nodes'', JArr [JObj [(''id'', JStr ''node_1''), (''type'', JStr ''noop''),
                                        (''position'', JObj [(''x'', JInt 250), (''y'', JInt 100)]),
                                        (''config'', JObj [])]]),
                (''edges'', JArr []),
                (''name'', JStr ''Generated Workflow''),
                (''summary'', JStr ''AI-generated workflow'')])
   \<and> ensure_complete_workflow_json (JObj [(''edges'', JArr [JObj [(''id'', JStr ''e1'')]])]) =
       Inl (ValueError ''Invalid edge at index 0: missing source or target'')"
proof -
  let ?wa = "[(''nodes'', JArr [JInt 7])]"
  let ?edge = "[(''id'', JStr ''e1'')]"
  let ?es = "[JObj ?edge]"
  let ?wb = "[(''edges'', JArr ?es)]"
  note t = validation_defaulting [of ?wa ?wb ?es 0 ?edge]
  have ha: "?wa \<noteq> [] \<and> (\<forall>e \<in> set (list_field ''edges'' ?wa). edge_ok e)"
    by (simp add: list_field_def)
  have hb: "?wb \<noteq> [] \<and> map_of ?wb ''edges'' = Some (JArr ?es) \<and> (0::nat) < length ?es \<and>
        ?es ! 0 = JObj ?edge \<and> (\<not> has_key ''source'' ?edge \<or> \<not> has_key ''target'' ?edge)"
    by (simp add: has_key_def)
  have hc: "\<forall>l<(0::nat). edge_ok (?es ! l)" by simp
  from t ha obtain w where w: "ensure_complete_workflow_json (JObj ?wa) = Inr (JObj w)"
    by blast
  have 1: "ensure_complete_workflow_json (JObj ?wa) =
     Inr (JObj [(''nodes'', JArr [JObj [(''id'', JStr ''node_1''), (''type'', JStr ''noop''),
                                        (''position'', JObj [(''x'', JInt 250), (''y'', JInt 100)]),
                                        (''config'', JObj [])]]),
                (''edges'', JArr []),
                (''name'', JStr ''Generated Workflow''),
                (''summary'', JStr ''AI-generated workflow'')])"
    by (simp add: ensure_complete_workflow_json_def ensure_list_field_def ensure_str_field_def
        list_field_def default_node_def default_position_def str_nat.simps digit_char_def)
  from t hb hc have 2: "ensure_complete_workflow_json (JObj ?wb) =
       Inl (ValueError (''Invalid edge at index '' @ str_nat 0 @ '': missing source or target''))"
    by blast
  from 1 2 show ?thesis by (simp add: str_nat.simps digit_char_def)
qed

text \<open>
  Claim C10. Validation treats malformed list elements asymmetrically. An element of the
  node list that is not an object is replaced by the complete default node (id
  \<open>node_{i+1}\<close>, type \<open>noop\<close>, position \<open>{x: 250 + 300 i, y: 100}\<close>, empty
  config) and validation goes on; an element of the edge list that is not an object makes
  validation raise the \<open>ValueError\<close> of the first offending edge (\<open>must be an object\<close>
  when it is that element); a workflow value that is empty or not an object raises
  \<open>Invalid workflow: must be an object\<close>.
\<close>

theorem validation_asymmetry:
  "(wa \<noteq> [] \<and> map_of wa ''nodes'' = Some (JArr ns) \<and> i < length ns \<and> \<not> is_dict (ns ! i) \<and>
      (\<forall>e \<in> set (list_field ''edges'' wa). edge_ok e) \<longrightarrow>
      (\<exists>w. ensure_complete_workflow_json (JObj wa) = Inr (JObj w) \<and>
           list_field ''nodes'' w ! i =
             JObj [(''id'', JStr (''node_'' @ str_nat (i + 1))),
                   (''type'', JStr ''noop''),
                   (''position'', JObj [(''x'', JInt (250 + int i * 300)), (''y'', JInt 100)]),
                   (''config'', JObj [])]))
   \<and> (wb \<noteq> [] \<and> map_of wb ''edges'' = Some (JArr es) \<and> k < length es \<and> \<not> is_dict (es ! k) \<longrightarrow>
        (\<exists>j\<le>k. \<not> edge_ok (es ! j) \<and> (\<forall>l<j. edge_ok (es ! l)) \<and>
                ensure_complete_workflow_json (JObj wb) = Inl (edge_error j (es ! j))) \<and>
        ((\<forall>l<k. edge_ok (es ! l)) \<longrightarrow>
           ensure_complete_workflow_json (JObj wb) =
             Inl (ValueError (''Invalid edge at index '' @ str_nat k @ '': must be an object''))))
   \<and> (\<not> truthy v \<or> \<not> is_dict v \<longrightarrow>
        ensure_complete_workflow_json v = Inl (ValueError ''Invalid workflow: must be an object''))"
proof (intro conjI impI)
  assume a: "wa \<noteq> [] \<and> map_of wa ''nodes'' = Some (JArr ns) \<and> i < length ns \<and> \<not> is_dict (ns ! i) \<and>
      (\<forall>e \<in> set (list_field ''edges'' wa). edge_ok e)"
  then obtain w where w: "ensure_complete_workflow_json (JObj wa) = Inr (JObj w)"
      "list_field ''nodes'' w = fix_nodes 0 (list_field ''nodes'' wa)"
    using ensure_accepts [of wa] by blast
  from a have lf: "list_field ''nodes'' wa = ns" by (simp add: list_field_def)
  from a have "fix_nodes 0 ns ! i = default_node i"
    by (simp add: nth_fix_nodes fix_node_not_dict)
  then have "list_field ''nodes'' w ! i =
             JObj [(''id'', JStr (''node_'' @ str_nat (i + 1))),
                   (''type'', JStr ''noop''),
                   (''position'', JObj [(''x'', JInt (250 + int i * 300)), (''y'', JInt 100)]),
                   (''config'', JObj [])]"
    by (simp add: w(2) lf default_node_def default_position_def)
  with w(1) show "\<exists>w. ensure_complete_workflow_json (JObj wa) = Inr (JObj w) \<and>
           list_field ''nodes'' w ! i =
             JObj [(''id'', JStr (''node_'' @ str_nat (i + 1))),
                   (''type'', JStr ''noop''),
                   (''position'', JObj [(''x'', JInt (250 + int i * 300)), (''y'', JInt 100)]),
                   (''config'', JObj [])]"
    by (intro exI [of _ w] conjI)
next
  assume b: "wb \<noteq> [] \<and> map_of wb ''edges'' = Some (JArr es) \<and> k < length es \<and> \<not> is_dict (es ! k)"
  then have bad: "\<not> edge_ok (es ! k)" by (simp add: not_dict_not_ok)
  from b bad show "\<exists>j\<le>k. \<not> edge_ok (es ! j) \<and> (\<forall>l<j. edge_ok (es ! l)) \<and>
                ensure_complete_workflow_json (JObj wb) = Inl (edge_error j (es ! j))"
    using ensure_rejects_bad_edge [of wb es k] by simp
  assume "\<forall>l<k. edge_ok (es ! l)"
  with b bad have "ensure_complete_workflow_json (JObj wb) = Inl (edge_error k (es ! k))"
    using ensure_rejects_first_bad_edge [of wb es k] by simp
  with b show "ensure_complete_workflow_json (JObj wb) =
             Inl (ValueError (''Invalid edge at index '' @ str_nat k @ '': must be an object''))"
    by (simp add: edge_error_not_dict)
next
  assume "\<not> truthy v \<or> \<not> is_dict v"
  then show "ensure_complete_workflow_json v = Inl (ValueError ''Invalid workflow: must be an object'')"
    by (rule ensure_top_level)
qed

theorem validation_asymmetry_witness:
  "(\<exists>w. ensure_complete_workflow_json (JObj [(''nodes'', JArr [JObj [], JStr ''oops''])]) = Inr (JObj w) \<and>
        list_field ''nodes'' w ! 1 =
          JObj [(''id'', JStr ''node_2''), (''type'', JStr ''noop''),
                (''position'', JObj [(''x'', JInt 550), (''y'', JInt 100)]),
                (''config'', JObj [])])
   \<and> ensure_complete_workflow_json (JObj [(''edges'', JArr [JStr ''a->b''])]) =
       Inl (ValueError ''Invalid edge at index 0: must be an object'')
   \<and> ensure_complete_workflow_json (JObj []) = Inl (ValueError ''Invalid workflow: must be an object'')
   \<and> ensure_complete_workflow_json (JArr [JInt 1]) = Inl (ValueError ''Invalid workflow: must be an object'')"
proof -
  let ?ns = "[JObj [], JStr ''oops'']"
  let ?wa = "[(''nodes'', JArr ?ns)]"
  let ?es = "[JStr ''a->b'']"
  let ?wb = "[(''edges'', JArr ?es)]"
  note t1 = validation_asymmetry [of ?wa ?ns 1 ?wb ?es 0 "JObj []"]
  note t2 = validation_asymmetry [of ?wa ?ns 1 ?wb ?es 0 "JArr [JInt 1]"]
  have ha: "?wa \<noteq> [] \<and> map_of ?wa ''nodes'' = Some (JArr ?ns) \<and> (1::nat) < length ?ns \<and>
      \<not> is_dict (?ns ! 1) \<and> (\<forall>e \<in> set (list_field ''edges'' ?wa). edge_ok e)"
    by (simp add: list_field_def)
  have hb: "?wb \<noteq> [] \<and> map_of ?wb ''edges'' = Some (JArr ?es) \<and> (0::nat) < length ?es \<and>
      \<not> is_dict (?es ! 0)"
    by simp
  have hc: "\<forall>l<(0::nat). edge_ok (?es ! l)" by simp
  have hv1: "\<not> truthy (JObj []) \<or> \<not> is_dict (JObj [])" by simp
  have hv2: "\<not> truthy (JArr [JInt 1]) \<or> \<not> is_dict (JArr [JInt 1])" by simp
  have sn: "str_nat (Suc (Suc 0)) = ''2''" "str_nat 0 = ''0''"
    by (simp_all add: str_nat.simps digit_char_def)
  from t1 ha have 1: "\<exists>w. ensure_complete_workflow_json (JObj ?wa) = Inr (JObj w) \<and>
        list_field ''nodes'' w ! 1 =
          JObj [(''id'', JStr (''node_'' @ str_nat (1 + 1))), (''type'', JStr ''noop''),
                (''position'', JObj [(''x'', JInt (250 + int 1 * 300)), (''y'', JInt 100)]),
                (''config'', JObj [])]"
    by blast
  from t1 hb hc have 2: "ensure_complete_workflow_json (JObj ?wb) =
       Inl (ValueError (''Invalid edge at index '' @ str_nat 0 @ '': must be an object''))"
    by blast
  from t1 hv1 have 3: "ensure_complete_workflow_json (JObj []) = Inl (ValueError ''Invalid workflow: must be an object'')"
    by blast
  from t2 hv2 have 4: "ensure_complete_workflow_json (JArr [JInt 1]) = Inl (ValueError ''Invalid workflow: must be an object'')"
    by blast
  from 1 2 3 4 show ?thesis by (simp add: sn)
qed

text \<open>
  Claim C5, as amended. Validation does not compare an edge's \<open>source\<close> and
  \<open>target\<close> with the node ids. What it guarantees of an accepted workflow is that every
  edge is an object with the keys \<open>id\<close>, \<open>source\<close> and \<open>target\<close>; a workflow with
  an edge that is not an object, or that lacks \<open>source\<close> or \<open>target\<close>, is rejected
  with the \<open>ValueError\<close> of the first such edge, never repaired.
\<close>

theorem accepted_edges_have_endpoints:
  "(ensure_complete_workflow_json v = Inr w \<longrightarrow>
      (\<exists>kvs. w = JObj kvs \<and> (\<forall>e \<in> set (list_field ''edges'' kvs). complete_edge e)))
   \<and> (wb \<noteq> [] \<and> map_of wb ''edges'' = Some (JArr es) \<and> k < length es \<and> \<not> edge_ok (es ! k) \<longrightarrow>
        (\<exists>j\<le>k. \<not> edge_ok (es ! j) \<and>
                ensure_complete_workflow_json (JObj wb) = Inl (edge_error j (es ! j))))"
proof (intro conjI impI)
  assume "ensure_complete_workflow_json v = Inr w"
  from ensure_Inr_shape [OF this] obtain wa kvs es' where
    s: "w = JObj kvs" "validate_edges 0 (list_field ''edges'' wa) = Inr es'"
       "list_field ''edges'' kvs = es'"
    by blast
  from validate_edges_Inr [OF s(2)] have "\<forall>e \<in> set es'. complete_edge e" by simp
  with s show "\<exists>kvs. w = JObj kvs \<and> (\<forall>e \<in> set (list_field ''edges'' kvs). complete_edge e)"
    by simp
next
  assume b: "wb \<noteq> [] \<and> map_of wb ''edges'' = Some (JArr es) \<and> k < length es \<and> \<not> edge_ok (es ! k)"
  then obtain j where j: "j \<le> k" "\<not> edge_ok (es ! j)"
      "ensure_complete_workflow_json (JObj wb) = Inl (edge_error j (es ! j))"
    using ensure_rejects_bad_edge [of wb es k] by blast
  then show "\<exists>j\<le>k. \<not> edge_ok (es ! j) \<and>
                ensure_complete_workflow_json (JObj wb) = Inl (edge_error j (es ! j))"
    by (intro exI [of _ j] conjI)
qed

text \<open>
  Claim C5 as stated fails: a workflow whose only edge points at the node id \<open>ghost\<close>,
  which no node has, is accepted and returned with that edge unchanged.
\<close>

theorem edge_reference_counterexample:
  "ensure_complete_workflow_json
     (JObj [(''nodes'', JArr [JObj [(''id'', JStr ''n1'')]]),
            (''edges'', JArr [JObj [(''id'', JStr ''e1''), (''source'', JStr ''n1''),
                                    (''target'', JStr ''ghost'')]])]) =
   Inr (JObj [(''nodes'', JArr [JObj [(''id'', JStr ''n1''), (''type'', JStr ''noop''),
                                      (''position'', JObj [(''x'', JInt 250), (''y'', JInt 100)]),
                                      (''config'', JObj [])]]),
              (''edges'', JArr [JObj [(''id'', JStr ''e1''), (''source'', JStr ''n1''),
                                      (''target'', JStr ''ghost'')]]),
              (''name'', JStr ''Generated Workflow''),
              (''summary'', JStr ''AI-generated workflow'')])
   \<and> \<not> edge_refs_resolved
        (JObj [(''nodes'', JArr [JObj [(''id'', JStr ''n1''), (''type'', JStr ''noop''),
                                      (''position'', JObj [(''x'', JInt 250), (''y'', JInt 100)]),
                                      (''config'', JObj [])]]),
              (''edges'', JArr [JObj [(''id'', JStr ''e1''), (''source'', JStr ''n1''),
                                      (''target'', JStr ''ghost'')]]),
              (''name'', JStr ''Generated Workflow''),
              (''summary'', JStr ''AI-generated workflow'')])"
  by (simp add: ensure_complete_workflow_json_def ensure_list_field_def ensure_str_field_def
        list_field_def set_if_missing_def has_key_def default_position_def
        edge_refs_resolved_def edge_resolved_def node_ids_def)

theorem accepted_edges_have_endpoints_witness:
  "complete_edge (JObj [(''source'', JStr ''a''), (''target'', JStr ''b''), (''id'', JStr ''edge_1'')])
   \<and> ensure_complete_workflow_json (JObj [(''edges'', JArr [JObj [(''source'', JStr ''a'')]])]) =
       Inl (ValueError ''Invalid edge at index 0: missing source or target'')"
proof -
  let ?e = "JObj [(''source'', JStr ''a''), (''target'', JStr ''b''), (''id'', JStr ''edge_1'')]"
  let ?v = "JObj [(''edges'', JArr [JObj [(''source'', JStr ''a''), (''target'', JStr ''b'')]])]"
  let ?w = "JObj [(''edges'', JArr [?e]),
              (''nodes'', JArr []), (''name'', JStr ''Generated Workflow''),
              (''summary'', JStr ''AI-generated workflow'')]"
  let ?es = "[JObj [(''source'', JStr ''a'')]]"
  let ?wb = "[(''edges'', JArr ?es)]"
  note t = accepted_edges_have_endpoints [of ?v ?w ?wb ?es 0]
  have h1: "ensure_complete_workflow_json ?v = Inr ?w"
    by (simp add: ensure_complete_workflow_json_def ensure_list_field_def ensure_str_field_def
        list_field_def set_if_missing_def has_key_def str_nat.simps digit_char_def)
  have h2: "?wb \<noteq> [] \<and> map_of ?wb ''edges'' = Some (JArr ?es) \<and> (0::nat) < length ?es \<and>
        \<not> edge_ok (?es ! 0)"
    by (simp add: edge_ok_def has_key_def)
  from t h1 obtain kvs where k: "?w = JObj kvs" "\<forall>e \<in> set (list_field ''edges'' kvs). complete_edge e"
    by blast
  from k(1) have "list_field ''edges'' kvs = [?e]" by (auto simp: list_field_def)
  with k(2) have c1: "complete_edge ?e" by simp
  from t h2 obtain j where j: "j \<le> 0"
      "ensure_complete_workflow_json (JObj ?wb) = Inl (edge_error j (?es ! j))"
    by blast
  from j have c2: "ensure_complete_workflow_json (JObj ?wb) =
      Inl (ValueError ''Invalid edge at index 0: missing source or target'')"
    by (simp add: edge_error_def str_nat.simps digit_char_def)
  from c1 c2 show ?thesis by (intro conjI)
qed

section \<open>Properties of the gateway's bearer-token check\<close>

lemma admit_protected:
  "depends_on_verify_api_key r \<Longrightarrow> API_KEY \<noteq> [] \<Longrightarrow> credentials \<noteq> Some API_KEY \<Longrightarrow>
     \<exists>m. admit API_KEY r credentials = Inl (HTTPException 401 m)"
  by (cases credentials) (auto simp: admit_def verify_api_key_def)

lemma admit_no_secret: "admit [] r credentials = Inr ()"
  by (simp add: admit_def verify_api_key_def)

text \<open>
  Claim C8, evaluated on the code. With the shared secret \<open>s3cret\<close> configured, a request
  without any token is served on \<open>GET /models\<close> and on \<open>GET /api/tags\<close>: their
  handlers do not depend on \<open>verify_api_key\<close>. The same request on \<open>POST /chat\<close> is
  answered 401. The claim wants every route except \<open>GET /health\<close> to answer 401.
\<close>

theorem model_list_routes_skip_auth:
  "admit ''s3cret'' GET_models None = Inr () \<and> admit ''s3cret'' GET_api_tags None = Inr ()
   \<and> admit ''s3cret'' POST_chat None =
       Inl (HTTPException 401 ''API key required. Provide Authorization header: Bearer <key>'')"
  by (simp add: admit_def verify_api_key_def)

section \<open>Properties of the inference client\<close>

lemma make_request_timeouts:
  "\<forall>n path. post d n path = TimedOut \<Longrightarrow> retry_count \<le> max_retries (config c) \<Longrightarrow>
     make_request d c retry_count =
       (Inl TimeoutException,
        c\<lparr>request_log := request_log c
             @ replicate (Suc (nat (max_retries (config c) - retry_count))) ''/api/generate''\<rparr>)"
proof (induction d c retry_count rule: make_request.induct)
  case (1 d c retry_count)
  from "1.prems"(1) have p: "post d (length (request_log c)) ''/api/generate'' = TimedOut"
    by blast
  show ?case
  proof (cases "retry_count < max_retries (config c)")
    case True
    then have rc: "retry_count + 1 \<le> max_retries (config (sent ''/api/generate'' c))"
      by (simp add: sent_def)
    have n: "Suc (nat (max_retries (config c) - retry_count))
               = Suc (Suc (nat (max_retries (config c) - (retry_count + 1))))"
      using True by simp
    have "make_request d c retry_count = make_request d (sent ''/api/generate'' c) (retry_count + 1)"
      by (subst make_request.simps) (simp add: p True)
    also have "\<dots> = (Inl TimeoutException,
        (sent ''/api/generate'' c)\<lparr>request_log := request_log (sent ''/api/generate'' c)
             @ replicate (Suc (nat (max_retries (config (sent ''/api/generate'' c)) - (retry_count + 1))))
                 ''/api/generate''\<rparr>)"
      using "1.IH" [OF p True "1.prems"(1) rc] by simp
    finally show ?thesis
      by (simp add: sent_def n)
  next
    case False
    with "1.prems" have eq: "retry_count = max_retries (config c)" by simp
    show ?thesis
      by (subst make_request.simps) (simp add: p sent_def eq)
  qed
qed


lemma chat_endpoint_sent: "chat_endpoint (sent path c) = chat_endpoint c"
  by (simp add: chat_endpoint_def sent_def)

lemma chat_endpoint_log: "chat_endpoint (c\<lparr>request_log := l\<rparr>) = chat_endpoint c"
  by (simp add: chat_endpoint_def)

lemma make_chat_request_timeouts:
  "\<forall>n path. post d n path = TimedOut \<Longrightarrow> retry_count \<le> max_retries (config c) \<Longrightarrow>
     make_chat_request d c model retry_count =
       (Inl TimeoutException,
        c\<lparr>request_log := request_log c
             @ replicate (Suc (nat (max_retries (config c) - retry_count))) (chat_endpoint c)\<rparr>)"
proof (induction d c model retry_count rule: make_chat_request.induct)
  case (1 d c model retry_count)
  let ?c' = "sent (chat_endpoint c) c"
  from "1.prems"(1) have p: "post d (length (request_log c)) (chat_endpoint c) = TimedOut"
    by blast
  show ?case
  proof (cases "retry_count < max_retries (config c)")
    case True
    then have rc: "retry_count + 1 \<le> max_retries (config ?c')"
      by (simp add: sent_def)
    have n: "nat (max_retries (config c) - retry_count)
               = Suc (nat (max_retries (config c) - (retry_count + 1)))"
      using True by simp
    have "make_chat_request d c model retry_count = make_chat_request d ?c' model (retry_count + 1)"
      by (subst make_chat_request.simps) (simp add: p True)
    also have "\<dots> = (Inl TimeoutException,
        ?c'\<lparr>request_log := request_log ?c'
             @ replicate (Suc (nat (max_retries (config ?c') - (retry_count + 1)))) (chat_endpoint ?c')\<rparr>)"
      using "1.IH" [OF p True "1.prems"(1) rc] by simp
    finally show ?thesis
      by (simp add: chat_endpoint_log sent_def n)
  next
    case False
    with "1.prems" have eq: "retry_count = max_retries (config c)" by simp
    show ?thesis
      by (subst make_chat_request.simps) (simp add: p sent_def eq)
  qed
qed

text \<open>
  Claim C2, as amended. Against a daemon whose every request times out, a non-streaming
  \<open>generate\<close> or \<open>chat\<close> call of a client configured with \<open>k\<close> retries sends exactly
  \<open>k + 1\<close> requests (four for three retries) and then raises the timeout to its caller.
\<close>

theorem retry_bound_non_streaming:
  "(\<forall>n path. post d n path = TimedOut) \<and> max_retries (config c) = int k \<longrightarrow>
     generate d c False =
       (Inl TimeoutException,
        c\<lparr>request_log := request_log c @ replicate (Suc k) ''/api/generate''\<rparr>)
     \<and> chat d c model False =
       (Inl TimeoutException,
        c\<lparr>request_log := request_log c @ replicate (Suc k) (chat_endpoint c)\<rparr>)"
proof (intro impI conjI)
  assume a: "(\<forall>n path. post d n path = TimedOut) \<and> max_retries (config c) = int k"
  then have t: "\<forall>n path. post d n path = TimedOut" and le: "0 \<le> max_retries (config c)"
    and k: "nat (max_retries (config c) - 0) = k"
    by simp_all
  show "generate d c False =
       (Inl TimeoutException,
        c\<lparr>request_log := request_log c @ replicate (Suc k) ''/api/generate''\<rparr>)"
    using make_request_timeouts [OF t le] k by (simp add: generate_def)
  show "chat d c model False =
       (Inl TimeoutException,
        c\<lparr>request_log := request_log c @ replicate (Suc k) (chat_endpoint c)\<rparr>)"
    using make_chat_request_timeouts [OF t le, of model] k by (simp add: chat_def)
qed

theorem retry_bound_non_streaming_witness:
  "generate always_times_out client_with_three_retries False =
     (Inl TimeoutException,
      client_with_three_retries\<lparr>request_log :=
        [''/api/generate'', ''/api/generate'', ''/api/generate'', ''/api/generate'']\<rparr>)
   \<and> chat always_times_out client_with_three_retries ''mistral:7b'' False =
     (Inl TimeoutException,
      client_with_three_retries\<lparr>request_log :=
        [''/api/chat'', ''/api/chat'', ''/api/chat'', ''/api/chat'']\<rparr>)"
proof -
  have h: "(\<forall>n path. post always_times_out n path = TimedOut)
             \<and> max_retries (config client_with_three_retries) = int 3"
    by (simp add: always_times_out_def client_with_three_retries_def)
  have l: "request_log client_with_three_retries = []"
        "chat_endpoint client_with_three_retries = ''/api/chat''"
    by (simp_all add: client_with_three_retries_def chat_endpoint_def)
  from retry_bound_non_streaming [of always_times_out client_with_three_retries 3 "''mistral:7b''"] h
  show ?thesis
    by (simp add: l numeral_3_eq_3)
qed

text \<open>
  Claim C2 as stated fails for a streaming call: \<open>generate\<close> with \<open>stream=True\<close> returns
  the generator without sending anything, and iterating the generator sends one request
  and raises the timeout; nothing retries it.
\<close>

theorem streaming_call_counterexample:
  "generate always_times_out client_with_three_retries True =
     (Inr (Generator ''/api/generate''), client_with_three_retries)
   \<and> iterate_generator rejects_all_text always_times_out client_with_three_retries ''/api/generate'' =
     (Inl TimeoutException, client_with_three_retries\<lparr>request_log := [''/api/generate'']\<rparr>)"
  by (simp add: generate_def iterate_generator_def always_times_out_def sent_def
        client_with_three_retries_def)

lemma tunnel_plan:
  "is_native_ollama_tunnel (base_url (config c)) \<Longrightarrow>
     probe_endpoint c = ''/api/tags'' \<and> probe_fallback c = None \<and>
     force_native_for_tunnel c = c\<lparr>is_openai_compatible := False\<rparr>"
  by (simp add: probe_endpoint_def probe_fallback_def force_native_for_tunnel_def)

lemma other_plan:
  "\<not> is_native_ollama_tunnel (base_url (config c)) \<Longrightarrow>
     probe_endpoint c =
       (if contains ''/v1/'' (base_url (config c)) \<or> is_openai_compatible c
        then ''/v1/models'' else ''/api/tags'') \<and>
     probe_fallback c =
       Some (if probe_endpoint c = ''/v1/models'' then ''/api/tags'' else ''/v1/models'') \<and>
     force_native_for_tunnel c = c"
  by (simp add: probe_endpoint_def probe_fallback_def force_native_for_tunnel_def)

lemma health_check_tunnel:
  assumes "is_native_ollama_tunnel (base_url (config c))"
  shows "\<not> is_openai_compatible (snd (health_check d c)) \<and>
         request_log (snd (health_check d c)) = request_log c @ [''/api/tags'']"
proof (cases "get d (length (request_log c)) ''/api/tags''")
  case (Status code body)
  then show ?thesis
    using tunnel_plan [OF assms] by (simp add: health_check_def Let_def sent_def)
next
  case (ConnectError m)
  then show ?thesis
    using tunnel_plan [OF assms] by (simp add: health_check_def Let_def sent_def)
next
  case (GetTimeout m)
  then show ?thesis
    using tunnel_plan [OF assms] by (simp add: health_check_def Let_def sent_def)
next
  case (OtherError ty m)
  then show ?thesis
    using tunnel_plan [OF assms] by (simp add: health_check_def Let_def sent_def)
qed

lemma try_fallback_log:
  "request_log (snd (try_fallback d c endpoint code fb)) = request_log c @ [fb]"
  by (cases "get d (length (request_log c)) fb") (simp_all add: try_fallback_def sent_def)

lemma health_check_first_probe:
  "take (Suc (length (request_log c))) (request_log (snd (health_check d c))) =
     request_log c @ [probe_endpoint c]"
proof (cases "get d (length (request_log c)) (probe_endpoint c)")
  case (Status code body)
  then show ?thesis
    by (cases "is_native_ollama_tunnel (base_url (config c))")
       (auto simp: health_check_def Let_def sent_def force_native_for_tunnel_def try_fallback_log
             split: option.splits)
next
  case (ConnectError m)
  then show ?thesis
    by (simp add: health_check_def Let_def sent_def force_native_for_tunnel_def)
next
  case (GetTimeout m)
  then show ?thesis
    by (simp add: health_check_def Let_def sent_def force_native_for_tunnel_def)
next
  case (OtherError ty m)
  then show ?thesis
    by (simp add: health_check_def Let_def sent_def force_native_for_tunnel_def)
qed

lemma health_check_200:
  assumes "get d (length (request_log c)) (probe_endpoint c) = Status 200 body"
  shows "fst (health_check d c) = (True, []) \<and>
         is_openai_compatible (snd (health_check d c)) = (probe_endpoint c = ''/v1/models'') \<and>
         mode_detected (snd (health_check d c)) \<and>
         request_log (snd (health_check d c)) = request_log c @ [probe_endpoint c]"
  using assms by (simp add: health_check_def Let_def sent_def force_native_for_tunnel_def)

lemma health_check_fallback_200:
  assumes nt: "\<not> is_native_ollama_tunnel (base_url (config c))"
    and nd: "\<not> mode_detected c"
    and p: "get d (length (request_log c)) (probe_endpoint c) = Status code body"
    and code: "code = 404 \<or> code = 403"
    and fb: "fb = (if probe_endpoint c = ''/v1/models'' then ''/api/tags'' else ''/v1/models'')"
    and f: "get d (Suc (length (request_log c))) fb = Status 200 fbody"
  shows "fst (health_check d c) = (True, []) \<and>
         is_openai_compatible (snd (health_check d c)) = (fb = ''/v1/models'') \<and>
         mode_detected (snd (health_check d c)) \<and>
         request_log (snd (health_check d c)) = request_log c @ [probe_endpoint c, fb]"
proof -
  from other_plan [OF nt] have pf: "probe_fallback c = Some fb" and fn: "force_native_for_tunnel c = c"
    by (simp_all add: fb)
  from code have c200: "code \<noteq> 200" by auto
  have hc: "health_check d c = try_fallback d (sent (probe_endpoint c) c) (probe_endpoint c) code fb"
    using p code c200 nd by (simp add: health_check_def Let_def pf fn sent_def)
  show ?thesis
    using f by (simp add: hc try_fallback_def sent_def)
qed

lemma try_fallback_config: "config (snd (try_fallback d c endpoint code fb)) = config c"
  by (cases "get d (length (request_log c)) fb") (simp_all add: try_fallback_def sent_def)

lemma health_check_config: "config (snd (health_check d c)) = config c"
proof (cases "get d (length (request_log c)) (probe_endpoint c)")
  case (Status code body)
  then show ?thesis
    by (auto simp: health_check_def Let_def sent_def force_native_for_tunnel_def
          try_fallback_config split: option.splits)
next
  case (ConnectError m)
  then show ?thesis by (simp add: health_check_def Let_def sent_def force_native_for_tunnel_def)
next
  case (GetTimeout m)
  then show ?thesis by (simp add: health_check_def Let_def sent_def force_native_for_tunnel_def)
next
  case (OtherError ty m)
  then show ?thesis by (simp add: health_check_def Let_def sent_def force_native_for_tunnel_def)
qed

lemma health_check_detected_sticky:
  assumes nt: "\<not> is_native_ollama_tunnel (base_url (config c))"
    and det: "mode_detected c"
    and nv: "\<not> contains ''/v1/'' (base_url (config c)) \<or> is_openai_compatible c"
  shows "is_openai_compatible (snd (health_check d c)) = is_openai_compatible c \<and>
         mode_detected (snd (health_check d c)) \<and>
         config (snd (health_check d c)) = config c \<and>
         request_log (snd (health_check d c)) =
           request_log c @ [if is_openai_compatible c then ''/v1/models'' else ''/api/tags'']"
proof -
  from other_plan [OF nt] nv have pe:
    "probe_endpoint c = (if is_openai_compatible c then ''/v1/models'' else ''/api/tags'')"
    and fn: "force_native_for_tunnel c = c"
    by auto
  show ?thesis
  proof (cases "get d (length (request_log c)) (probe_endpoint c)")
    case (Status code body)
    then show ?thesis
      using det by (auto simp: health_check_def Let_def sent_def fn pe)
  next
    case (ConnectError m)
    then show ?thesis using det by (auto simp: health_check_def Let_def sent_def fn pe)
  next
    case (GetTimeout m)
    then show ?thesis using det by (auto simp: health_check_def Let_def sent_def fn pe)
  next
    case (OtherError ty m)
    then show ?thesis using det by (auto simp: health_check_def Let_def sent_def fn pe)
  qed
qed

lemma health_checks_detected_sticky:
  "\<not> is_native_ollama_tunnel (base_url (config c)) \<Longrightarrow> mode_detected c \<Longrightarrow>
   \<not> contains ''/v1/'' (base_url (config c)) \<or> is_openai_compatible c \<Longrightarrow>
     is_openai_compatible (health_checks n d c) = is_openai_compatible c \<and>
     mode_detected (health_checks n d c) \<and>
     config (health_checks n d c) = config c \<and>
     request_log (health_checks n d c) =
       request_log c @ replicate n (if is_openai_compatible c then ''/v1/models'' else ''/api/tags'')"
proof (induction n arbitrary: c)
  case 0
  then show ?case by simp
next
  case (Suc n)
  let ?c = "snd (health_check d c)"
  from health_check_detected_sticky [OF Suc.prems, of d]
  have s: "is_openai_compatible ?c = is_openai_compatible c" "mode_detected ?c"
    "config ?c = config c"
    "request_log ?c = request_log c @ [if is_openai_compatible c then ''/v1/models'' else ''/api/tags'']"
    by simp_all
  have "\<not> is_native_ollama_tunnel (base_url (config ?c))" using Suc.prems(1) s(3) by simp
  moreover have "\<not> contains ''/v1/'' (base_url (config ?c)) \<or> is_openai_compatible ?c"
    using Suc.prems(3) s(1,3) by simp
  ultimately have "is_openai_compatible (health_checks n d ?c) = is_openai_compatible ?c \<and>
     mode_detected (health_checks n d ?c) \<and>
     config (health_checks n d ?c) = config ?c \<and>
     request_log (health_checks n d ?c) =
       request_log ?c @ replicate n (if is_openai_compatible ?c then ''/v1/models'' else ''/api/tags'')"
    using s(2) by (intro Suc.IH)
  then show ?case by (simp add: s)
qed

lemma health_checks_tunnel:
  "is_native_ollama_tunnel (base_url (config c)) \<Longrightarrow> \<not> is_openai_compatible c \<Longrightarrow>
     \<not> is_openai_compatible (health_checks n d c) \<and>
     config (health_checks n d c) = config c \<and>
     request_log (health_checks n d c) = request_log c @ replicate n ''/api/tags''"
proof (induction n arbitrary: c)
  case 0
  then show ?case by simp
next
  case (Suc n)
  let ?c = "snd (health_check d c)"
  from health_check_tunnel [OF Suc.prems(1), of d]
  have s: "\<not> is_openai_compatible ?c" "request_log ?c = request_log c @ [''/api/tags'']"
    by simp_all
  have cf: "config ?c = config c" by (rule health_check_config)
  have "is_native_ollama_tunnel (base_url (config ?c))" using Suc.prems(1) cf by simp
  from Suc.IH [OF this s(1)] show ?case by (simp add: s cf)
qed

lemma new_client_tunnel:
  "is_native_ollama_tunnel (base_url cfg) \<Longrightarrow>
     request_log (new_client cfg) = [] \<and> \<not> is_openai_compatible (new_client cfg)"
  by (simp add: new_client_def)

lemma new_client_first_probe:
  "\<not> is_native_ollama_tunnel (base_url cfg) \<Longrightarrow>
     probe_endpoint (new_client cfg) =
       (if contains ''/v1/'' (base_url cfg) \<or> contains ''api.openai.com'' (base_url cfg)
           \<or> contains ''gateway'' (lower (base_url cfg))
        then ''/v1/models'' else ''/api/tags'')"
  by (auto simp: new_client_def probe_endpoint_def)


lemma lower_local_url: "lower ''http://localhost:11434'' = ''http://localhost:11434''"
  by code_simp

lemma local_not_tunnel: "\<not> is_native_ollama_tunnel (base_url local_config)"
  by (simp add: local_config_def is_native_ollama_tunnel_def contains_def startswith_def)

lemma tunnel_is_tunnel: "is_native_ollama_tunnel (base_url tunnel_config)"
  by (simp add: tunnel_config_def is_native_ollama_tunnel_def contains_def startswith_def)

lemma new_local_client:
  "new_client local_config =
     \<lparr>config = local_config, is_openai_compatible = False, mode_detected = False, request_log = []\<rparr>"
  using local_not_tunnel
  by (simp add: new_client_def Let_def)
     (simp add: local_config_def lower_local_url contains_def startswith_def)

lemma local_no_v1: "\<not> contains ''/v1/'' (base_url local_config)"
  by (simp add: local_config_def contains_def startswith_def)

lemma lower_v1_url: "lower ''http://localhost:11434/v1/'' = ''http://localhost:11434/v1/''"
  by code_simp

lemma v1_not_tunnel: "\<not> is_native_ollama_tunnel (base_url v1_config)"
  by (simp add: v1_config_def is_native_ollama_tunnel_def contains_def startswith_def)

lemma v1_has_v1: "contains ''/v1/'' (base_url v1_config)"
  by (simp add: v1_config_def contains_def startswith_def)

lemma new_v1_client:
  "new_client v1_config =
     \<lparr>config = v1_config, is_openai_compatible = True, mode_detected = False, request_log = []\<rparr>"
  using v1_not_tunnel v1_has_v1 by (simp add: new_client_def Let_def)

text \<open>
  Claim C3, as amended. A client whose base location matches the native-tunnel pattern is
  native from construction, which sends no request, and every health probe of it asks the
  native list endpoint only and leaves it native, however many probes follow. For any other
  base location the first health probe asks the OpenAI-compatible list endpoint first only
  when the location contains \<open>/v1/\<close>, \<open>api.openai.com\<close> or (in any case) \<open>gateway\<close>,
  and the native list endpoint first otherwise. A 200 from the endpoint probed first sets
  the dialect of that endpoint; a 404 or 403 from it, before any detection, makes the probe
  ask the other list endpoint, and a 200 there sets the dialect of the other endpoint. Once
  a dialect is detected, for a base location without \<open>/v1/\<close> or when the detected dialect
  is the OpenAI-compatible one, a health probe asks the list endpoint of that dialect only
  and leaves the dialect, the detection flag and the configuration as they are; hence so
  does every sequence of later health probes, whatever the daemon answers.
\<close>

theorem dialect_detection:
  "(is_native_ollama_tunnel (base_url cfg) \<longrightarrow>
      request_log (new_client cfg) = [] \<and> \<not> is_openai_compatible (new_client cfg) \<and>
      \<not> is_openai_compatible (health_checks k dk (new_client cfg)) \<and>
      request_log (health_checks k dk (new_client cfg)) = replicate k ''/api/tags'')
   \<and> (is_native_ollama_tunnel (base_url (config ct)) \<longrightarrow>
        \<not> is_openai_compatible (snd (health_check dt ct)) \<and>
        request_log (snd (health_check dt ct)) = request_log ct @ [''/api/tags''])
   \<and> (\<not> is_native_ollama_tunnel (base_url cfh) \<longrightarrow>
        probe_endpoint (new_client cfh) =
          (if contains ''/v1/'' (base_url cfh) \<or> contains ''api.openai.com'' (base_url cfh)
              \<or> contains ''gateway'' (lower (base_url cfh))
           then ''/v1/models'' else ''/api/tags'') \<and>
        take (Suc 0) (request_log (snd (health_check da (new_client cfh)))) =
          [probe_endpoint (new_client cfh)])
   \<and> (get db (length (request_log cb)) (probe_endpoint cb) = Status 200 body \<longrightarrow>
        fst (health_check db cb) = (True, []) \<and>
        is_openai_compatible (snd (health_check db cb)) = (probe_endpoint cb = ''/v1/models'') \<and>
        mode_detected (snd (health_check db cb)) \<and>
        request_log (snd (health_check db cb)) = request_log cb @ [probe_endpoint cb])
   \<and> (\<not> is_native_ollama_tunnel (base_url (config cc)) \<and> \<not> mode_detected cc \<and>
        get dc (length (request_log cc)) (probe_endpoint cc) = Status code cbody \<and>
        (code = 404 \<or> code = 403) \<and>
        get dc (Suc (length (request_log cc)))
          (if probe_endpoint cc = ''/v1/models'' then ''/api/tags'' else ''/v1/models'')
          = Status 200 fbody \<longrightarrow>
        fst (health_check dc cc) = (True, []) \<and>
        is_openai_compatible (snd (health_check dc cc)) = (probe_endpoint cc \<noteq> ''/v1/models'') \<and>
        mode_detected (snd (health_check dc cc)) \<and>
        request_log (snd (health_check dc cc)) =
          request_log cc @ [probe_endpoint cc,
             if probe_endpoint cc = ''/v1/models'' then ''/api/tags'' else ''/v1/models''])
   \<and> (\<not> is_native_ollama_tunnel (base_url (config cs)) \<and> mode_detected cs \<and>
        (\<not> contains ''/v1/'' (base_url (config cs)) \<or> is_openai_compatible cs) \<longrightarrow>
        is_openai_compatible (snd (health_check ds cs)) = is_openai_compatible cs \<and>
        mode_detected (snd (health_check ds cs)) \<and>
        config (snd (health_check ds cs)) = config cs \<and>
        request_log (snd (health_check ds cs)) =
          request_log cs @ [if is_openai_compatible cs then ''/v1/models'' else ''/api/tags''])
   \<and> (\<not> is_native_ollama_tunnel (base_url (config cl)) \<and> mode_detected cl \<and>
        (\<not> contains ''/v1/'' (base_url (config cl)) \<or> is_openai_compatible cl) \<longrightarrow>
        is_openai_compatible (health_checks n dl cl) = is_openai_compatible cl \<and>
        mode_detected (health_checks n dl cl) \<and>
        config (health_checks n dl cl) = config cl \<and>
        request_log (health_checks n dl cl) =
          request_log cl @ replicate n (if is_openai_compatible cl then ''/v1/models'' else ''/api/tags''))"
proof (intro conjI impI)
  assume t: "is_native_ollama_tunnel (base_url cfg)"
  then show "request_log (new_client cfg) = []" "\<not> is_openai_compatible (new_client cfg)"
    using new_client_tunnel by blast+
  have cf: "config (new_client cfg) = cfg" by (simp add: new_client_def Let_def)
  from t cf have "is_native_ollama_tunnel (base_url (config (new_client cfg)))" by simp
  from health_checks_tunnel [OF this, of k dk] new_client_tunnel [OF t]
  show "\<not> is_openai_compatible (health_checks k dk (new_client cfg))"
    "request_log (health_checks k dk (new_client cfg)) = replicate k ''/api/tags''"
    by simp_all
next
  assume "is_native_ollama_tunnel (base_url (config ct))"
  then show "\<not> is_openai_compatible (snd (health_check dt ct))"
    "request_log (snd (health_check dt ct)) = request_log ct @ [''/api/tags'']"
    using health_check_tunnel by blast+
next
  assume "\<not> is_native_ollama_tunnel (base_url cfh)"
  then show "probe_endpoint (new_client cfh) =
          (if contains ''/v1/'' (base_url cfh) \<or> contains ''api.openai.com'' (base_url cfh)
              \<or> contains ''gateway'' (lower (base_url cfh))
           then ''/v1/models'' else ''/api/tags'')"
    by (rule new_client_first_probe)
  have "request_log (new_client cfh) = []" by (simp add: new_client_def Let_def)
  then show "take (Suc 0) (request_log (snd (health_check da (new_client cfh)))) =
          [probe_endpoint (new_client cfh)]"
    using health_check_first_probe [of "new_client cfh" da] by simp
next
  assume "get db (length (request_log cb)) (probe_endpoint cb) = Status 200 body"
  from health_check_200 [OF this]
  show "fst (health_check db cb) = (True, [])"
    "is_openai_compatible (snd (health_check db cb)) = (probe_endpoint cb = ''/v1/models'')"
    "mode_detected (snd (health_check db cb))"
    "request_log (snd (health_check db cb)) = request_log cb @ [probe_endpoint cb]"
    by simp_all
next
  assume a: "\<not> is_native_ollama_tunnel (base_url (config cc)) \<and> \<not> mode_detected cc \<and>
        get dc (length (request_log cc)) (probe_endpoint cc) = Status code cbody \<and>
        (code = 404 \<or> code = 403) \<and>
        get dc (Suc (length (request_log cc)))
          (if probe_endpoint cc = ''/v1/models'' then ''/api/tags'' else ''/v1/models'')
          = Status 200 fbody"
  let ?fb = "if probe_endpoint cc = ''/v1/models'' then ''/api/tags'' else ''/v1/models''"
  from a have h: "fst (health_check dc cc) = (True, []) \<and>
         is_openai_compatible (snd (health_check dc cc)) = (?fb = ''/v1/models'') \<and>
         mode_detected (snd (health_check dc cc)) \<and>
         request_log (snd (health_check dc cc)) = request_log cc @ [probe_endpoint cc, ?fb]"
    by (intro health_check_fallback_200 [where code = code and body = cbody and fbody = fbody])
       simp_all
  from h show "fst (health_check dc cc) = (True, [])" by simp
  from h show "is_openai_compatible (snd (health_check dc cc)) = (probe_endpoint cc \<noteq> ''/v1/models'')"
    by (simp split: if_splits)
  from h show "mode_detected (snd (health_check dc cc))" by simp
  from h show "request_log (snd (health_check dc cc)) = request_log cc @ [probe_endpoint cc, ?fb]"
    by simp
next
  assume a: "\<not> is_native_ollama_tunnel (base_url (config cs)) \<and> mode_detected cs \<and>
        (\<not> contains ''/v1/'' (base_url (config cs)) \<or> is_openai_compatible cs)"
  then have "is_openai_compatible (snd (health_check ds cs)) = is_openai_compatible cs \<and>
         mode_detected (snd (health_check ds cs)) \<and>
         config (snd (health_check ds cs)) = config cs \<and>
         request_log (snd (health_check ds cs)) =
           request_log cs @ [if is_openai_compatible cs then ''/v1/models'' else ''/api/tags'']"
    by (intro health_check_detected_sticky) simp_all
  then show "is_openai_compatible (snd (health_check ds cs)) = is_openai_compatible cs"
    "mode_detected (snd (health_check ds cs))"
    "config (snd (health_check ds cs)) = config cs"
    "request_log (snd (health_check ds cs)) =
          request_log cs @ [if is_openai_compatible cs then ''/v1/models'' else ''/api/tags'']"
    by simp_all
next
  assume a: "\<not> is_native_ollama_tunnel (base_url (config cl)) \<and> mode_detected cl \<and>
        (\<not> contains ''/v1/'' (base_url (config cl)) \<or> is_openai_compatible cl)"
  then have "is_openai_compatible (health_checks n dl cl) = is_openai_compatible cl \<and>
     mode_detected (health_checks n dl cl) \<and>
     config (health_checks n dl cl) = config cl \<and>
     request_log (health_checks n dl cl) =
       request_log cl @ replicate n (if is_openai_compatible cl then ''/v1/models'' else ''/api/tags'')"
    by (intro health_checks_detected_sticky) simp_all
  then show "is_openai_compatible (health_checks n dl cl) = is_openai_compatible cl"
    "mode_detected (health_checks n dl cl)"
    "config (health_checks n dl cl) = config cl"
    "request_log (health_checks n dl cl) =
       request_log cl @ replicate n (if is_openai_compatible cl then ''/v1/models'' else ''/api/tags'')"
    by simp_all
qed

text \<open>
  Claim C3 as stated fails for a local daemon that answers on both list endpoints: the
  first health probe of a client at \<open>http://localhost:11434\<close> asks the native list
  endpoint, not the OpenAI-compatible one, and the client settles on the native dialect.
\<close>

theorem native_probe_first_counterexample:
  "health_check serves_both_dialects (new_client local_config) =
     ((True, []),
      \<lparr>config = local_config, is_openai_compatible = False, mode_detected = True,
       request_log = [''/api/tags'']\<rparr>)"
  using local_not_tunnel local_no_v1
  by (simp add: new_local_client health_check_def Let_def probe_endpoint_def probe_fallback_def
        force_native_for_tunnel_def sent_def serves_both_dialects_def)


theorem dialect_detection_witness:
  "request_log (new_client tunnel_config) = [] \<and> \<not> is_openai_compatible (new_client tunnel_config)
   \<and> \<not> is_openai_compatible (health_checks (Suc (Suc 0)) serves_both_dialects (new_client tunnel_config))
   \<and> request_log (health_checks (Suc (Suc 0)) serves_both_dialects (new_client tunnel_config))
       = [''/api/tags'', ''/api/tags'']
   \<and> request_log (snd (health_check serves_both_dialects (new_client tunnel_config))) = [''/api/tags'']
   \<and> probe_endpoint (new_client local_config) = ''/api/tags''
   \<and> is_openai_compatible (snd (health_check serves_openai_only (new_client local_config)))
   \<and> request_log (snd (health_check serves_openai_only (new_client local_config)))
       = [''/api/tags'', ''/v1/models'']
   \<and> is_openai_compatible (snd (health_check serves_both_dialects detected_openai_client))
   \<and> mode_detected (snd (health_check serves_both_dialects detected_openai_client))
   \<and> config (snd (health_check serves_both_dialects detected_openai_client)) = local_config
   \<and> request_log (snd (health_check serves_both_dialects detected_openai_client))
       = [''/api/tags'', ''/v1/models'', ''/v1/models'']
   \<and> is_openai_compatible (health_checks (Suc (Suc 0)) serves_both_dialects detected_openai_client)
   \<and> mode_detected (health_checks (Suc (Suc 0)) serves_both_dialects detected_openai_client)
   \<and> request_log (health_checks (Suc (Suc 0)) serves_both_dialects detected_openai_client)
       = [''/api/tags'', ''/v1/models'', ''/v1/models'', ''/v1/models'']"
proof -
  note t = dialect_detection [where cfg = tunnel_config and ct = "new_client tunnel_config"
      and dt = serves_both_dialects and cfh = local_config and da = serves_both_dialects
      and db = serves_both_dialects and cb = "new_client local_config" and body = "[]"
      and dc = serves_openai_only and cc = "new_client local_config" and code = 404
      and cbody = "[]" and fbody = "[]" and ds = serves_both_dialects
      and cs = detected_openai_client and k = "Suc (Suc 0)" and dk = serves_both_dialects
      and n = "Suc (Suc 0)" and dl = serves_both_dialects and cl = detected_openai_client]
  have pe: "probe_endpoint (new_client local_config) = ''/api/tags''"
    using local_not_tunnel local_no_v1 by (simp add: new_local_client probe_endpoint_def)
  have h1: "is_native_ollama_tunnel (base_url tunnel_config)" by (rule tunnel_is_tunnel)
  have h2: "is_native_ollama_tunnel (base_url (config (new_client tunnel_config)))"
    using tunnel_is_tunnel by (simp add: new_client_def Let_def)
  have h3: "\<not> is_native_ollama_tunnel (base_url local_config)" by (rule local_not_tunnel)
  have h4: "get serves_both_dialects (length (request_log (new_client local_config)))
              (probe_endpoint (new_client local_config)) = Status 200 []"
    by (simp add: serves_both_dialects_def)
  have h5: "\<not> is_native_ollama_tunnel (base_url (config (new_client local_config))) \<and>
        \<not> mode_detected (new_client local_config) \<and>
        get serves_openai_only (length (request_log (new_client local_config)))
          (probe_endpoint (new_client local_config)) = Status 404 [] \<and>
        ((404::nat) = 404 \<or> (404::nat) = 403) \<and>
        get serves_openai_only (Suc (length (request_log (new_client local_config))))
          (if probe_endpoint (new_client local_config) = ''/v1/models''
           then ''/api/tags'' else ''/v1/models'')
          = Status 200 []"
    using local_not_tunnel by (simp add: pe) (simp add: new_local_client serves_openai_only_def)
  have h6: "\<not> is_native_ollama_tunnel (base_url (config detected_openai_client)) \<and>
        mode_detected detected_openai_client \<and>
        (\<not> contains ''/v1/'' (base_url (config detected_openai_client))
          \<or> is_openai_compatible detected_openai_client)"
    using local_not_tunnel local_no_v1 by (simp add: detected_openai_client_def)
  have r0: "request_log (new_client tunnel_config) = []" by (simp add: new_client_def Let_def)
  have r1: "request_log (new_client local_config) = []" by (simp add: new_client_def Let_def)
  have r2: "request_log detected_openai_client = [''/api/tags'', ''/v1/models'']"
       "is_openai_compatible detected_openai_client" "config detected_openai_client = local_config"
    by (simp_all add: detected_openai_client_def)
  from t h1 have w1: "request_log (new_client tunnel_config) = [] \<and>
      \<not> is_openai_compatible (new_client tunnel_config) \<and>
      \<not> is_openai_compatible (health_checks (Suc (Suc 0)) serves_both_dialects (new_client tunnel_config)) \<and>
      request_log (health_checks (Suc (Suc 0)) serves_both_dialects (new_client tunnel_config))
        = replicate (Suc (Suc 0)) ''/api/tags''" by blast
  from t h2 have w2: "request_log (snd (health_check serves_both_dialects (new_client tunnel_config)))
      = request_log (new_client tunnel_config) @ [''/api/tags'']" by blast
  from t h5 have w5: "is_openai_compatible (snd (health_check serves_openai_only (new_client local_config)))
        = (probe_endpoint (new_client local_config) \<noteq> ''/v1/models'') \<and>
     request_log (snd (health_check serves_openai_only (new_client local_config))) =
          request_log (new_client local_config) @ [probe_endpoint (new_client local_config),
             if probe_endpoint (new_client local_config) = ''/v1/models''
             then ''/api/tags'' else ''/v1/models'']"
    by blast
  from t h6 have w6: "is_openai_compatible (snd (health_check serves_both_dialects detected_openai_client))
        = is_openai_compatible detected_openai_client \<and>
     mode_detected (snd (health_check serves_both_dialects detected_openai_client)) \<and>
     config (snd (health_check serves_both_dialects detected_openai_client)) = config detected_openai_client \<and>
     request_log (snd (health_check serves_both_dialects detected_openai_client)) =
          request_log detected_openai_client
            @ [if is_openai_compatible detected_openai_client then ''/v1/models'' else ''/api/tags'']"
    by blast
  from t h6 have w7: "is_openai_compatible (health_checks (Suc (Suc 0)) serves_both_dialects detected_openai_client)
        = is_openai_compatible detected_openai_client \<and>
     mode_detected (health_checks (Suc (Suc 0)) serves_both_dialects detected_openai_client) \<and>
     request_log (health_checks (Suc (Suc 0)) serves_both_dialects detected_openai_client) =
          request_log detected_openai_client
            @ replicate (Suc (Suc 0))
                (if is_openai_compatible detected_openai_client then ''/v1/models'' else ''/api/tags'')"
    by blast
  have rep: "\<And>x::string. replicate (Suc (Suc 0)) x = [x, x]" by simp
  from w1 w2 w5 w6 w7 show ?thesis
    by (simp only: r0 r1 r2 pe rep) simp
qed

text \<open>
  The exception to the stickiness. At a base location that contains \<open>/v1/\<close> the endpoint
  to probe is chosen from the location even after the native dialect was detected: the
  first health probe of the client finds the OpenAI-compatible list endpoint missing, falls
  back and detects the native dialect; the second asks the OpenAI-compatible list endpoint
  again and, on its 200, changes the detected dialect.
\<close>

lemma v1_location_reprobes:
  "health_check openai_endpoint_appears (new_client v1_config) =
     ((True, []),
      \<lparr>config = v1_config, is_openai_compatible = False, mode_detected = True,
       request_log = [''/v1/models'', ''/api/tags'']\<rparr>)
   \<and> health_checks (Suc (Suc 0)) openai_endpoint_appears (new_client v1_config) =
      \<lparr>config = v1_config, is_openai_compatible = True, mode_detected = True,
       request_log = [''/v1/models'', ''/api/tags'', ''/v1/models'']\<rparr>"
proof -
  have h1: "health_check openai_endpoint_appears (new_client v1_config) =
     ((True, []),
      \<lparr>config = v1_config, is_openai_compatible = False, mode_detected = True,
       request_log = [''/v1/models'', ''/api/tags'']\<rparr>)"
    using v1_not_tunnel v1_has_v1
    by (simp add: new_v1_client health_check_def Let_def probe_endpoint_def probe_fallback_def
          force_native_for_tunnel_def sent_def try_fallback_def openai_endpoint_appears_def)
  have h2: "health_check openai_endpoint_appears
       \<lparr>config = v1_config, is_openai_compatible = False, mode_detected = True,
        request_log = [''/v1/models'', ''/api/tags'']\<rparr> =
     ((True, []),
      \<lparr>config = v1_config, is_openai_compatible = True, mode_detected = True,
       request_log = [''/v1/models'', ''/api/tags'', ''/v1/models'']\<rparr>)"
    using v1_not_tunnel v1_has_v1
    by (simp add: health_check_def Let_def probe_endpoint_def probe_fallback_def
          force_native_for_tunnel_def sent_def try_fallback_def openai_endpoint_appears_def)
  show ?thesis by (simp add: h1 h2)
qed

section \<open>Properties of the endpoint failover\<close>

lemma call_ollama_chat_failure:
  assumes "try_body h (server (length (tp_requests tp0)) (tp_base_url tp0 @ ''/api/chat'')) = Inl e"
  shows "call_ollama_chat h server tp0 =
     (Inl (if h then UnboundLocalError ''requests'' else NameError ''aiohttp''),
      tp0\<lparr>tp_api_checked := True, tp_use_api := (tp_api_checked tp0 \<and> tp_use_api tp0),
          tp_requests := tp_requests tp0 @ [tp_base_url tp0 @ ''/api/chat'']\<rparr>)"
  using assms
  by (subst call_ollama_chat.simps)
     (auto simp: Let_def check_api_available_def first_handler_classes_def)

text \<open>
  Claim C4, evaluated on the code. The primary location refuses the connection and the
  fallback location would answer. With \<open>aiohttp\<close> installed the call ends with
  \<open>UnboundLocalError\<close>, without it with \<open>NameError\<close>; in both cases one request was sent,
  to the primary location, the base location is unchanged and the fallback is not engaged.
  The claim wants a switch to the fallback location and one retry there.
\<close>

theorem failover_never_engages:
  "call_ollama_chat True primary_down (new_text_processor ''https://ollama-api.ctrlchecks.ai'') =
     (Inl (UnboundLocalError ''requests''),
      (new_text_processor ''https://ollama-api.ctrlchecks.ai'')
        \<lparr>tp_api_checked := True,
         tp_requests := [''https://ollama-api.ctrlchecks.ai/api/chat'']\<rparr>)
   \<and> call_ollama_chat False primary_down (new_text_processor ''https://ollama-api.ctrlchecks.ai'') =
     (Inl (NameError ''aiohttp''),
      (new_text_processor ''https://ollama-api.ctrlchecks.ai'')
        \<lparr>tp_api_checked := True,
         tp_requests := [''https://ollama-api.ctrlchecks.ai/api/chat'']\<rparr>)
   \<and> tp_base_url (snd (call_ollama_chat True primary_down
          (new_text_processor ''https://ollama-api.ctrlchecks.ai''))) = ''https://ollama-api.ctrlchecks.ai''
   \<and> \<not> tp_fallback_used (snd (call_ollama_chat True primary_down
          (new_text_processor ''https://ollama-api.ctrlchecks.ai'')))"
proof -
  let ?tp = "new_text_processor ''https://ollama-api.ctrlchecks.ai''"
  have b: "try_body h (primary_down (length (tp_requests ?tp)) (tp_base_url ?tp @ ''/api/chat''))
        = Inl (ClientError ''Cannot connect to host ollama-api.ctrlchecks.ai:443'')" for h
    by (simp add: try_body_def primary_down_def new_text_processor_def)
  show ?thesis
    using call_ollama_chat_failure [where h = True and server = primary_down and ?tp0.0 = ?tp, OF b]
      call_ollama_chat_failure [where h = False and server = primary_down and ?tp0.0 = ?tp, OF b]
    by (simp add: new_text_processor_def)
qed

section \<open>Properties of the extraction of JSON from the model's text\<close>

lemma startswith_append: "startswith p (p @ s)"
  by (simp add: startswith_def)

lemma startswith_iff: "startswith p s = (\<exists>b. s = p @ b)"
proof
  assume "startswith p s"
  then have "s = p @ drop (length p) s"
    by (metis append_take_drop_id startswith_def)
  then show "\<exists>b. s = p @ b" ..
next
  assume "\<exists>b. s = p @ b"
  then show "startswith p s" by (auto simp: startswith_def)
qed

lemma find_None_drop:
  "find sub s = None \<Longrightarrow> i \<le> length s \<Longrightarrow> \<not> startswith sub (drop i s)"
proof (induction s arbitrary: i)
  case Nil
  then show ?case by (auto simp: startswith_def split: if_splits)
next
  case (Cons c cs)
  then show ?case by (cases i) (auto split: if_splits)
qed

lemma find_Some_drop:
  "find sub s = Some i \<Longrightarrow> i \<le> length s \<and> startswith sub (drop i s)"
proof (induction s arbitrary: i)
  case Nil
  then show ?case by (auto simp: startswith_def split: if_splits)
next
  case (Cons c cs)
  then show ?case by (auto split: if_splits)
qed

lemma contains_iff: "contains sub s = (\<exists>a b. s = a @ sub @ b)"
proof
  assume "contains sub s"
  then obtain i where i: "find sub s = Some i" by (auto simp: contains_def)
  from find_Some_drop [OF i] obtain b where "drop i s = sub @ b"
    by (auto simp: startswith_iff)
  then have "s = take i s @ sub @ b" by (metis append_take_drop_id)
  then show "\<exists>a b. s = a @ sub @ b" by blast
next
  assume "\<exists>a b. s = a @ sub @ b"
  then obtain a b where s: "s = a @ sub @ b" by blast
  show "contains sub s"
  proof (rule ccontr)
    assume "\<not> contains sub s"
    then have "find sub s = None" by (simp add: contains_def)
    from find_None_drop [OF this, of "length a"] s show False
      by (simp add: startswith_append)
  qed
qed

lemma split_from_no_sep:
  "\<not> contains sep s \<Longrightarrow> split_from sep acc s = [rev acc @ s]"
proof (induction s arbitrary: acc)
  case Nil
  then show ?case by (simp add: split_from.simps)
next
  case (Cons c cs)
  from Cons.prems have ns: "\<not> startswith sep (c # cs)" and nc: "\<not> contains sep cs"
    by (auto simp: contains_def split: if_splits)
  from Cons.IH [OF nc, of "c # acc"] ns show ?case
    by (subst split_from.simps) simp
qed

lemma split_from_first_sep:
  "sep \<noteq> [] \<Longrightarrow> \<not> contains sep (a @ butlast sep) \<Longrightarrow>
     split_from sep acc (a @ sep @ b) = (rev acc @ a) # split_from sep [] b"
proof (induction a arbitrary: acc)
  case Nil
  then show ?case by (subst split_from.simps) (simp add: startswith_append)
next
  case (Cons c cs)
  have ns: "\<not> startswith sep (c # cs @ sep @ b)"
  proof
    assume "startswith sep (c # cs @ sep @ b)"
    then have t: "take (length sep) (c # cs @ sep @ b) = sep" by (simp add: startswith_def)
    define X where "X = (c # cs) @ butlast sep"
    have le: "length sep \<le> length X" using Cons.prems(1)
      by (cases sep) (auto simp: X_def)
    have eq: "c # cs @ sep @ b = X @ (last sep # b)"
      using Cons.prems(1) by (simp add: X_def)
    from t have "take (length sep) (X @ (last sep # b)) = sep" by (simp only: eq)
    with le have "take (length sep) X = sep" by simp
    then have "startswith sep ((c # cs) @ butlast sep)" by (simp add: startswith_def X_def)
    then have "contains sep ((c # cs) @ butlast sep)"
      by (auto simp: contains_iff startswith_iff intro: exI [of _ "[]"])
    with Cons.prems(2) show False by simp
  qed
  have nc: "\<not> contains sep (cs @ butlast sep)"
  proof
    assume "contains sep (cs @ butlast sep)"
    then obtain x y where "cs @ butlast sep = x @ sep @ y" by (auto simp: contains_iff)
    then have "(c # cs) @ butlast sep = (c # x) @ sep @ y" by simp
    then have "contains sep ((c # cs) @ butlast sep)" unfolding contains_iff by blast
    with Cons.prems(2) show False by simp
  qed
  from Cons.IH [OF Cons.prems(1) nc, of "c # acc"] ns show ?case
    by (subst split_from.simps) simp
qed


lemma contains_mono: "contains sub s \<Longrightarrow> contains sub (x @ s @ y)"
proof -
  assume "contains sub s"
  then obtain a b where "s = a @ sub @ b" by (auto simp: contains_iff)
  then have "x @ s @ y = (x @ a) @ sub @ (b @ y)" by simp
  then show ?thesis unfolding contains_iff by blast
qed

lemma contains_longer: "contains (sub @ rest) s \<Longrightarrow> contains sub s"
proof -
  assume "contains (sub @ rest) s"
  then obtain a b where "s = a @ (sub @ rest) @ b" by (auto simp: contains_iff)
  then have "s = a @ sub @ (rest @ b)" by simp
  then show ?thesis unfolding contains_iff by blast
qed

lemma contains_butlast:
  assumes "contains (sub @ c # rest) (s @ [x])"
  shows "contains sub s"
proof -
  from assms obtain a b where ab: "s @ [x] = a @ (sub @ c # rest) @ b" by (auto simp: contains_iff)
  then have "s @ [x] = (a @ sub) @ (c # rest @ b)" by simp
  then have "s = butlast ((a @ sub) @ (c # rest @ b))" by (metis butlast_snoc)
  also have "\<dots> = a @ sub @ butlast (c # rest @ b)" by (simp add: butlast_append)
  finally show ?thesis unfolding contains_iff by blast
qed

lemma strip_decomp: "\<exists>pre post. s = pre @ strip s @ post"
proof -
  have l: "s = takeWhile py_isspace s @ lstrip s" by (simp add: lstrip_def)
  have "lstrip s = rev (dropWhile py_isspace (rev (lstrip s))) @ rev (takeWhile py_isspace (rev (lstrip s)))"
    by (metis rev_append rev_rev_ident takeWhile_dropWhile_id)
  then have r: "lstrip s = strip s @ rev (takeWhile py_isspace (rev (lstrip s)))"
    by (simp add: strip_def rstrip_def)
  from l r have "s = takeWhile py_isspace s @ strip s @ rev (takeWhile py_isspace (rev (lstrip s)))"
    by simp
  then show ?thesis by blast
qed

lemma contains_strip: "contains sub (strip s) \<Longrightarrow> contains sub s"
proof -
  assume c: "contains sub (strip s)"
  obtain pre post where "s = pre @ strip s @ post" using strip_decomp by blast
  with contains_mono [OF c, of pre post] show ?thesis by simp
qed

lemma no_fence_in_body:
  assumes "\<not> contains ''```'' (body @ ''``'')"
  shows "\<not> contains ''```'' body" and "\<not> contains ''```json'' (body @ ''```'')"
    and "\<not> contains ''```'' (strip body)"
proof -
  show b: "\<not> contains ''```'' body"
    using assms contains_mono [of "''```''" body "[]" "''``''"] by auto
  show "\<not> contains ''```json'' (body @ ''```'')"
  proof
    assume "contains ''```json'' (body @ ''```'')"
    then have "contains (''```'' @ CHR ''j'' # ''son'') ((body @ ''``'') @ [CHR 0x60])" by simp
    from contains_butlast [OF this] assms show False by simp
  qed
  from b contains_strip show "\<not> contains ''```'' (strip body)" by blast
qed

lemma strip_fences_unfenced: "\<not> contains ''```'' s \<Longrightarrow> strip_fences s = s"
proof -
  assume n: "\<not> contains ''```'' s"
  have "\<not> contains (''```'' @ ''json'') s" using n contains_longer by blast
  then have "\<not> contains ''```json'' s" by simp
  with n show ?thesis by (simp add: strip_fences_def)
qed

lemma split_closing_fence:
  assumes "\<not> contains ''```'' (body @ ''``'')"
  shows "split_py ''```'' (body @ ''```'') = [body, []]"
proof -
  have "split_from ''```'' [] (body @ ''```'' @ []) = (rev [] @ body) # split_from ''```'' [] []"
    by (rule split_from_first_sep) (use assms in simp_all)
  then show ?thesis by (simp add: split_py_def split_from.simps)
qed

lemma strip_fences_json_fence:
  assumes "\<not> contains ''```'' (body @ ''``'')"
  shows "strip_fences (''```json'' @ body @ ''```'') = strip body"
proof -
  have c: "contains ''```json'' (''```json'' @ body @ ''```'')"
    unfolding contains_iff by (rule exI [of _ "[]"]) simp
  have nb: "\<not> contains ''```json'' (butlast ''```json'')"
    by (simp add: contains_def startswith_def)
  have "split_from ''```json'' [] ([] @ ''```json'' @ (body @ ''```''))
          = (rev [] @ []) # split_from ''```json'' [] (body @ ''```'')"
    using nb by (intro split_from_first_sep) simp_all
  also have "split_from ''```json'' [] (body @ ''```'') = [rev [] @ (body @ ''```'')]"
    by (rule split_from_no_sep) (rule no_fence_in_body(2) [OF assms])
  finally have s1: "split_py ''```json'' (''```json'' @ body @ ''```'') = [[], body @ ''```'']"
    by (simp add: split_py_def)
  have e1: "[[], body @ ''```''] ! 1 = body @ ''```''" by simp
  have e2: "[body, []] ! 0 = body" by simp
  show ?thesis
    unfolding strip_fences_def
    by (simp only: c if_True s1 e1 split_closing_fence [OF assms] e2)
qed

lemma strip_fences_plain_fence:
  assumes "\<not> contains ''```'' (body @ ''``'')"
    and "\<not> contains ''```json'' (''```'' @ body @ ''```'')"
  shows "strip_fences (''```'' @ body @ ''```'') = strip body"
proof -
  have c: "contains ''```'' (''```'' @ body @ ''```'')"
    unfolding contains_iff by (rule exI [of _ "[]"]) simp
  have nb: "\<not> contains ''```'' (butlast ''```'')"
    by (simp add: contains_def startswith_def)
  have "split_from ''```'' [] ([] @ ''```'' @ (body @ ''```''))
          = (rev [] @ []) # split_from ''```'' [] (body @ ''```'')"
    using nb by (intro split_from_first_sep) simp_all
  then have s1: "split_py ''```'' (''```'' @ body @ ''```'') = [[], body, []]"
    using split_closing_fence [OF assms(1)] by (simp add: split_py_def)
  have s2: "split_py ''```'' body = [body]"
    using split_from_no_sep [OF no_fence_in_body(1) [OF assms(1)], of "[]"] by (simp add: split_py_def)
  have e1: "[[], body, []] ! 1 = body" by simp
  have e2: "[body] ! 0 = body" by simp
  show ?thesis
    unfolding strip_fences_def
    by (simp only: assms(2) if_False c if_True s1 e1 s2 e2)
qed

section \<open>Properties of the job pipeline\<close>

lemma update_job_status_calls:
  "chat_calls (update_job_status e j st p ph er res ob w) = chat_calls w"
  by (simp add: update_job_status_def split: option.splits)

lemma add_progress_log_calls: "chat_calls (add_progress_log e j m p ph w) = chat_calls w"
  by (simp add: add_progress_log_def split: option.splits)

lemma update_job_status_row:
  "rows w j = Some r \<Longrightarrow> \<exists>r'. rows (update_job_status e j st p ph er res ob w) j = Some r'"
  by (simp add: update_job_status_def)

lemma add_progress_log_row:
  "rows w j = Some r \<Longrightarrow> \<exists>r'. rows (add_progress_log e j m p ph w) j = Some r'"
  by (simp add: add_progress_log_def split: option.splits)

lemma update_job_status_ok:
  "supabase e \<Longrightarrow> db_ok e (db_calls w) \<Longrightarrow> rows w j = Some r \<Longrightarrow>
     rows (update_job_status e j st p ph er res ob w) j = Some (apply_update e st p ph er res ob r)"
  by (simp add: update_job_status_def)

lemma on_exception_calls: "chat_calls (on_exception e j obs err w) = chat_calls w"
  by (simp add: on_exception_def update_job_status_calls)

lemma on_exception_failed:
  assumes "supabase e" "db_ok e (db_calls w)" "rows w j = Some r" "str_of err \<noteq> []"
  shows "\<exists>r'. rows (on_exception e j obs err w) j = Some r' \<and> status r' = ''failed'' \<and>
           error_message r' = Some (str_of err) \<and> finished_at r' = Some (now e)"
  using assms by (simp add: on_exception_def update_job_status_ok apply_update_def)

lemma response_content_stream: "response_content (stream_result s) = Inr (JStr s)"
  by (simp add: response_content_def stream_result_def Let_def)


lemma extract_workflow_error: "extract_workflow lds v = Inl err \<Longrightarrow> str_of err \<noteq> []"
  by (auto simp: extract_workflow_def Let_def decode_error_def
           split: json.splits sum.splits option.splits if_splits prod.splits)










lemma generation_call_stream: "cc_stream (generation_call e req a)"
  by (simp add: generation_call_def)

lemma analysis_call_stream: "\<not> cc_stream (analysis_call req)"
  by (simp add: analysis_call_def)


lemma generation_phase_unfold:
  assumes g: "chat_stream e (generation_call e req a) = Inr g"
  shows "\<exists>w3. chat_calls w3 = chat_calls w @ [generation_call e req a] \<and>
           (\<forall>r. rows w j = Some r \<longrightarrow> (\<exists>r3. rows w3 j = Some r3)) \<and>
           generation_phase e j req ml ifr a w =
             (case extract_workflow (loads e) (JStr g) of
                Inl err \<Rightarrow> on_exception e j (observability_dict ml ifr 0 0) err w3
              | Inr (wfl, txt) \<Rightarrow> validation_phase e j ml ifr wfl txt w3)"
proof -
  let ?w1 = "add_progress_log e j ''Analysis complete'' (Some 30) (Some ''workflow_generation'') w"
  let ?w2 = "add_progress_log e j ''Generating workflow structure...'' (Some 40)
               (Some ''workflow_generation'') ?w1"
  let ?w3 = "?w2\<lparr>chat_calls := chat_calls ?w2 @ [generation_call e req a]\<rparr>"
  have c: "chat_calls ?w3 = chat_calls w @ [generation_call e req a]"
    by (simp add: add_progress_log_calls)
  have rw: "\<forall>r. rows w j = Some r \<longrightarrow> (\<exists>r3. rows ?w3 j = Some r3)"
  proof (intro allI impI)
    fix r assume r: "rows w j = Some r"
    from add_progress_log_row [OF r] obtain r1 where r1: "rows ?w1 j = Some r1" by blast
    from add_progress_log_row [OF r1] obtain r2 where r2: "rows ?w2 j = Some r2" by blast
    then show "\<exists>r3. rows ?w3 j = Some r3" by simp
  qed
  have u: "generation_phase e j req ml ifr a w =
             (case extract_workflow (loads e) (JStr g) of
                Inl err \<Rightarrow> on_exception e j (observability_dict ml ifr 0 0) err ?w3
              | Inr (wfl, txt) \<Rightarrow> validation_phase e j ml ifr wfl txt ?w3)"
    by (simp add: generation_phase_def Let_def call_ollama_chat_worker_def generation_call_stream
          g response_content_stream split: sum.splits prod.splits)
  from c rw u show ?thesis by blast
qed

lemma generate_workflow_unfold:
  assumes a: "chat_reply e (analysis_call req) = Inr resp"
  shows "\<exists>w4. chat_calls w4 = chat_calls w @ [analysis_call req] \<and>
           (\<forall>r. rows w j = Some r \<longrightarrow> (\<exists>r4. rows w4 j = Some r4)) \<and>
           generate_workflow e j req w =
             (case response_content resp of
                Inl err \<Rightarrow> on_exception e j
                  (observability_dict (py_int (analysis_time e * 0.2)) (py_int (analysis_time e * 0.8)) 0 0)
                  err w4
              | Inr c \<Rightarrow> generation_phase e j req (py_int (analysis_time e * 0.2))
                  (py_int (analysis_time e * 0.8)) (extract_analysis (loads e) c) w4)"
proof -
  let ?w1 = "update_job_status e j ''processing'' (Some 0) (Some ''analyze'') None None None w"
  let ?w2 = "add_progress_log e j ''Starting workflow generation'' (Some 0) (Some ''analyze'') ?w1"
  let ?w3 = "add_progress_log e j ''Analyzing requirements...'' (Some 10) (Some ''analyze'') ?w2"
  let ?w4 = "?w3\<lparr>chat_calls := chat_calls ?w3 @ [analysis_call req]\<rparr>"
  have c: "chat_calls ?w4 = chat_calls w @ [analysis_call req]"
    by (simp add: add_progress_log_calls update_job_status_calls)
  have rw: "\<forall>r. rows w j = Some r \<longrightarrow> (\<exists>r4. rows ?w4 j = Some r4)"
  proof (intro allI impI)
    fix r assume r: "rows w j = Some r"
    from update_job_status_row [OF r] obtain r1 where r1: "rows ?w1 j = Some r1" by blast
    from add_progress_log_row [OF r1] obtain r2 where r2: "rows ?w2 j = Some r2" by blast
    from add_progress_log_row [OF r2] obtain r3 where r3: "rows ?w3 j = Some r3" by blast
    then show "\<exists>r4. rows ?w4 j = Some r4" by simp
  qed
  have u: "generate_workflow e j req w =
             (case response_content resp of
                Inl err \<Rightarrow> on_exception e j
                  (observability_dict (py_int (analysis_time e * 0.2)) (py_int (analysis_time e * 0.8)) 0 0)
                  err ?w4
              | Inr c \<Rightarrow> generation_phase e j req (py_int (analysis_time e * 0.2))
                  (py_int (analysis_time e * 0.8)) (extract_analysis (loads e) c) ?w4)"
    by (simp add: generate_workflow_def Let_def call_ollama_chat_worker_def analysis_call_stream a
          split: sum.splits)
  from c rw u show ?thesis by blast
qed

lemma generate_workflow_run:
  assumes a: "chat_reply e (analysis_call req) = Inr resp"
    and c: "response_content resp = Inr c"
    and g: "chat_stream e (generation_call e req (extract_analysis (loads e) c)) = Inr g"
  shows "\<exists>w3. chat_calls w3 = chat_calls w @ [analysis_call req,
                    generation_call e req (extract_analysis (loads e) c)] \<and>
           (\<forall>r. rows w j = Some r \<longrightarrow> (\<exists>r3. rows w3 j = Some r3)) \<and>
           generate_workflow e j req w =
             (case extract_workflow (loads e) (JStr g) of
                Inl err \<Rightarrow> on_exception e j
                  (observability_dict (py_int (analysis_time e * 0.2)) (py_int (analysis_time e * 0.8)) 0 0)
                  err w3
              | Inr (wfl, txt) \<Rightarrow> validation_phase e j (py_int (analysis_time e * 0.2))
                  (py_int (analysis_time e * 0.8)) wfl txt w3)"
proof -
  from generate_workflow_unfold [OF a, of w j] c obtain w4 where
    w4: "chat_calls w4 = chat_calls w @ [analysis_call req]"
      "\<forall>r. rows w j = Some r \<longrightarrow> (\<exists>r4. rows w4 j = Some r4)"
      "generate_workflow e j req w = generation_phase e j req (py_int (analysis_time e * 0.2))
          (py_int (analysis_time e * 0.8)) (extract_analysis (loads e) c) w4"
    by auto
  from generation_phase_unfold [OF g, of w4 j "py_int (analysis_time e * 0.2)"
      "py_int (analysis_time e * 0.8)"] obtain w3 where
    w3: "chat_calls w3 = chat_calls w4 @ [generation_call e req (extract_analysis (loads e) c)]"
      "\<forall>r. rows w4 j = Some r \<longrightarrow> (\<exists>r3. rows w3 j = Some r3)"
      "generation_phase e j req (py_int (analysis_time e * 0.2)) (py_int (analysis_time e * 0.8))
          (extract_analysis (loads e) c) w4 =
         (case extract_workflow (loads e) (JStr g) of
            Inl err \<Rightarrow> on_exception e j
              (observability_dict (py_int (analysis_time e * 0.2)) (py_int (analysis_time e * 0.8)) 0 0)
              err w3
          | Inr (wfl, txt) \<Rightarrow> validation_phase e j (py_int (analysis_time e * 0.2))
              (py_int (analysis_time e * 0.8)) wfl txt w3)"
    by blast
  have "chat_calls w3 = chat_calls w @ [analysis_call req,
          generation_call e req (extract_analysis (loads e) c)]"
    using w3(1) w4(1) by simp
  moreover have "\<forall>r. rows w j = Some r \<longrightarrow> (\<exists>r3. rows w3 j = Some r3)"
    using w3(2) w4(2) by blast
  ultimately show ?thesis using w3(3) w4(3) by auto
qed

lemma demo_analysis_content:
  "response_content (JObj [(''message'', JObj [(''content'', JStr ''I cannot help with that'')])])
     = Inr (JStr ''I cannot help with that'')"
  by (simp add: response_content_def Let_def)

lemma demo_analysis_unparsed: "demo_loads (strip_fences ''I cannot help with that'') = Inl (''Expecting value'', 1, 1, 0)"
  by code_simp

lemma demo_fenced_stripped:
  "strip_fences (''```json'' @ [CHR 0x0A] @ demo_workflow_text @ [CHR 0x0A] @ ''```'') = demo_workflow_text"
  by code_simp



lemma prose_find:
  "find ''{'' (strip_fences workflow_in_prose) = Some 13"
  "rfind ''}'' (strip_fences workflow_in_prose) = Some 64"
  "take (64 + 1 - 13) (drop 13 (strip_fences workflow_in_prose)) = demo_workflow_text"
  "demo_loads (strip_fences workflow_in_prose) = Inl (''Expecting value'', 1, 1, 0)"
  by code_simp+
















lemma extract_workflow_direct:
  "lds (strip_fences s) = Inr v \<Longrightarrow> extract_workflow lds (JStr s) = Inr (v, strip_fences s)"
  by (simp add: extract_workflow_def Let_def)

lemma extract_workflow_salvage:
  "lds (strip_fences s) = Inl d \<Longrightarrow> find ''{'' (strip_fences s) = Some i \<Longrightarrow>
   rfind ''}'' (strip_fences s) = Some k \<Longrightarrow> i < k \<Longrightarrow>
     extract_workflow lds (JStr s) =
       (case lds (take (k + 1 - i) (drop i (strip_fences s))) of
          Inr v \<Rightarrow> Inr (v, strip_fences s)
        | Inl d2 \<Rightarrow> Inl (decode_error d2))"
  by (simp add: extract_workflow_def Let_def split: sum.splits)

lemma extract_workflow_no_object:
  "lds (strip_fences s) = Inl d \<Longrightarrow>
   \<not> (\<exists>i k. find ''{'' (strip_fences s) = Some i \<and> rfind ''}'' (strip_fences s) = Some k \<and> i < k) \<Longrightarrow>
     extract_workflow lds (JStr s) =
       Inl (ValueError (''Could not extract valid JSON from response: '' @ str_of (decode_error d)))"
  by (auto simp: extract_workflow_def Let_def split: sum.splits option.splits)

lemma generation_failure_fails_job:
  assumes s: "supabase e" and ok: "\<forall>n. db_ok e n" and r: "rows w j = Some r"
    and a: "chat_reply e (analysis_call req) = Inr resp"
    and c: "response_content resp = Inr c"
    and g: "chat_stream e (generation_call e req (extract_analysis (loads e) c)) = Inr g"
    and x: "extract_workflow (loads e) (JStr g) = Inl err"
  shows "(\<exists>r'. rows (generate_workflow e j req w) j = Some r' \<and> status r' = ''failed'' \<and>
               error_message r' = Some (str_of err) \<and> str_of err \<noteq> []) \<and>
         chat_calls (generate_workflow e j req w) =
           chat_calls w @ [analysis_call req, generation_call e req (extract_analysis (loads e) c)]"
proof -
  define ml where "ml = py_int (analysis_time e * 0.2)"
  define ifr where "ifr = py_int (analysis_time e * 0.8)"
  from generate_workflow_run [OF a c g, of w j, folded ml_def ifr_def] r x obtain w3 r3 where
    cw: "chat_calls w3 = chat_calls w @ [analysis_call req,
           generation_call e req (extract_analysis (loads e) c)]" and
    r3: "rows w3 j = Some r3" and
    u3: "generate_workflow e j req w = on_exception e j (observability_dict ml ifr 0 0) err w3"
    by auto
  from ok have d: "db_ok e (db_calls w3)" by simp
  from on_exception_failed [OF s d r3 extract_workflow_error [OF x], of "observability_dict ml ifr 0 0"]
    extract_workflow_error [OF x]
  show ?thesis by (auto simp: u3 on_exception_calls cw)
qed

text \<open>
  Claim C7, as amended. Generation-phase parsing. A \<open>```json\<close> fence, or a plain
  \<open>```\<close> fence in a text without \<open>```json\<close>, around a text that holds no run of three
  backquotes and does not end in a backquote is stripped before parsing, and what is
  parsed is that text without its surrounding whitespace, the same as for the unfenced
  text. When the parser accepts the stripped text, its value is the workflow. When it
  rejects it and the first \<open>{\<close> of the stripped text is before its last \<open>}\<close>, the
  substring from the one to the other is parsed instead, and a rejection of that substring
  is the error of the phase; when there is no such substring the error is
  \<open>Could not extract valid JSON from response\<close> followed by the parser's message. Such
  an error, with a working store, leaves the job \<open>failed\<close> with the error's non-empty
  text as \<open>error_message\<close>, and the pipeline has made one analysis call and one
  generation call: the generation call is not repeated.
\<close>

theorem generation_parsing:
  "(\<not> contains ''```'' (body @ ''``'') \<longrightarrow>
      strip_fences (''```json'' @ body @ ''```'') = strip body \<and>
      strip_fences (strip body) = strip body)
   \<and> (\<not> contains ''```'' (pbody @ ''``'') \<and> \<not> contains ''```json'' (''```'' @ pbody @ ''```'') \<longrightarrow>
      strip_fences (''```'' @ pbody @ ''```'') = strip pbody)
   \<and> (lds (strip_fences s) = Inr v \<longrightarrow> extract_workflow lds (JStr s) = Inr (v, strip_fences s))
   \<and> (ldsa (strip_fences sa) = Inl da \<and> find ''{'' (strip_fences sa) = Some i \<and>
        rfind ''}'' (strip_fences sa) = Some k \<and> i < k \<longrightarrow>
        extract_workflow ldsa (JStr sa) =
          (case ldsa (take (k + 1 - i) (drop i (strip_fences sa))) of
             Inr v1 \<Rightarrow> Inr (v1, strip_fences sa)
           | Inl d2 \<Rightarrow> Inl (decode_error d2)))
   \<and> (ldsb (strip_fences sb) = Inl db \<and>
        \<not> (\<exists>i2 k2. find ''{'' (strip_fences sb) = Some i2 \<and> rfind ''}'' (strip_fences sb) = Some k2
               \<and> i2 < k2) \<longrightarrow>
        extract_workflow ldsb (JStr sb) =
          Inl (ValueError (''Could not extract valid JSON from response: '' @ str_of (decode_error db))))
   \<and> (supabase e \<and> (\<forall>n. db_ok e n) \<and> rows w j = Some r \<and>
        chat_reply e (analysis_call req) = Inr resp \<and> response_content resp = Inr c \<and>
        chat_stream e (generation_call e req (extract_analysis (loads e) c)) = Inr g \<and>
        extract_workflow (loads e) (JStr g) = Inl err \<longrightarrow>
        (\<exists>r'. rows (generate_workflow e j req w) j = Some r' \<and> status r' = ''failed'' \<and>
              error_message r' = Some (str_of err) \<and> str_of err \<noteq> []) \<and>
        chat_calls (generate_workflow e j req w) =
          chat_calls w @ [analysis_call req, generation_call e req (extract_analysis (loads e) c)])"
proof (intro conjI impI)
  assume b: "\<not> contains ''```'' (body @ ''``'')"
  show "strip_fences (''```json'' @ body @ ''```'') = strip body"
    by (rule strip_fences_json_fence [OF b])
  show "strip_fences (strip body) = strip body"
    by (rule strip_fences_unfenced [OF no_fence_in_body(3) [OF b]])
next
  assume "\<not> contains ''```'' (pbody @ ''``'') \<and> \<not> contains ''```json'' (''```'' @ pbody @ ''```'')"
  then show "strip_fences (''```'' @ pbody @ ''```'') = strip pbody"
    using strip_fences_plain_fence by blast
next
  assume "lds (strip_fences s) = Inr v"
  then show "extract_workflow lds (JStr s) = Inr (v, strip_fences s)"
    by (rule extract_workflow_direct)
next
  assume "ldsa (strip_fences sa) = Inl da \<and> find ''{'' (strip_fences sa) = Some i \<and>
        rfind ''}'' (strip_fences sa) = Some k \<and> i < k"
  then show "extract_workflow ldsa (JStr sa) =
          (case ldsa (take (k + 1 - i) (drop i (strip_fences sa))) of
             Inr v1 \<Rightarrow> Inr (v1, strip_fences sa)
           | Inl d2 \<Rightarrow> Inl (decode_error d2))"
    using extract_workflow_salvage by blast
next
  assume "ldsb (strip_fences sb) = Inl db \<and>
        \<not> (\<exists>i2 k2. find ''{'' (strip_fences sb) = Some i2 \<and> rfind ''}'' (strip_fences sb) = Some k2
               \<and> i2 < k2)"
  then show "extract_workflow ldsb (JStr sb) =
          Inl (ValueError (''Could not extract valid JSON from response: '' @ str_of (decode_error db)))"
    using extract_workflow_no_object by blast
next
  assume h: "supabase e \<and> (\<forall>n. db_ok e n) \<and> rows w j = Some r \<and>
        chat_reply e (analysis_call req) = Inr resp \<and> response_content resp = Inr c \<and>
        chat_stream e (generation_call e req (extract_analysis (loads e) c)) = Inr g \<and>
        extract_workflow (loads e) (JStr g) = Inl err"
  then have p: "supabase e" "\<forall>n. db_ok e n" "rows w j = Some r"
    "chat_reply e (analysis_call req) = Inr resp" "response_content resp = Inr c"
    "chat_stream e (generation_call e req (extract_analysis (loads e) c)) = Inr g"
    "extract_workflow (loads e) (JStr g) = Inl err"
    by simp_all
  from generation_failure_fails_job [OF p] show "\<exists>r'. rows (generate_workflow e j req w) j = Some r' \<and> status r' = ''failed'' \<and>
              error_message r' = Some (str_of err) \<and> str_of err \<noteq> []"
    and "chat_calls (generate_workflow e j req w) =
          chat_calls w @ [analysis_call req, generation_call e req (extract_analysis (loads e) c)]"
    by simp_all
qed

text \<open>
  Claim C7 as stated fails for a workflow whose text holds three backquotes inside a
  string: the fenced output \<open>```json\<close>, newline, \<open>{"name":"a```b"}\<close>, newline,
  \<open>```\<close> is cut at the backquotes inside the string, and the unfenced text itself is
  taken for a fenced one; neither is parsed as the workflow that was sent.
\<close>

theorem backquotes_in_workflow_counterexample:
  \<open>strip_fences (''```json'' @ [CHR 0x0A] @ ''{"name":"a```b"}'' @ [CHR 0x0A] @ ''```'') = ''{"name":"a''
   \<and> strip_fences ''{"name":"a```b"}'' = ''b"}''\<close>
  by code_simp


theorem generation_parsing_witness:
  "strip_fences (''```json'' @ ([CHR 0x0A] @ demo_workflow_text @ [CHR 0x0A]) @ ''```'') = demo_workflow_text
   \<and> strip_fences demo_workflow_text = demo_workflow_text
   \<and> strip_fences (''```'' @ ([CHR 0x0A] @ demo_workflow_text @ [CHR 0x0A]) @ ''```'') = demo_workflow_text
   \<and> extract_workflow demo_loads (JStr demo_workflow_text) = Inr (demo_workflow, demo_workflow_text)
   \<and> extract_workflow demo_loads (JStr workflow_in_prose) = Inr (demo_workflow, workflow_in_prose)
   \<and> extract_workflow demo_loads (JStr ''Sorry, no workflow'') =
        Inl (ValueError ''Could not extract valid JSON from response: Expecting value: line 1 column 1 (char 0)'')
   \<and> (\<exists>r'. rows (generate_workflow no_workflow_env ''job-1'' demo_request demo_world) ''job-1'' = Some r' \<and>
            status r' = ''failed'' \<and>
            error_message r' =
              Some ''Could not extract valid JSON from response: Expecting value: line 1 column 1 (char 0)'')
   \<and> chat_calls (generate_workflow no_workflow_env ''job-1'' demo_request demo_world) =
        [analysis_call demo_request, generation_call no_workflow_env demo_request analysis_fallback]"
proof -
  let ?body = "[CHR 0x0A] @ demo_workflow_text @ [CHR 0x0A]"
  let ?err = "ValueError ''Could not extract valid JSON from response: Expecting value: line 1 column 1 (char 0)''"
  note t = generation_parsing [where body = ?body and pbody = ?body
      and lds = demo_loads and s = demo_workflow_text and v = demo_workflow
      and ldsa = demo_loads and sa = workflow_in_prose and da = "(''Expecting value'', 1, 1, 0)"
      and i = 13 and k = 64
      and ldsb = demo_loads and sb = "''Sorry, no workflow''" and db = "(''Expecting value'', 1, 1, 0)"
      and e = no_workflow_env and w = demo_world and j = "''job-1''" and r = pending_row
      and req = demo_request
      and resp = "JObj [(''message'', JObj [(''content'', JStr ''I cannot help with that'')])]"
      and c = "JStr ''I cannot help with that''" and g = "''Sorry, no workflow''" and err = ?err]
  have f1: "\<not> contains ''```'' (?body @ ''``'')" by code_simp
  have f2: "strip ?body = demo_workflow_text" by code_simp
  have f3: "\<not> contains ''```'' (?body @ ''``'') \<and> \<not> contains ''```json'' (''```'' @ ?body @ ''```'')"
    by code_simp
  from t f1 have a1: "strip_fences (''```json'' @ ?body @ ''```'') = strip ?body"
    and a2: "strip_fences (strip ?body) = strip ?body" by blast+
  from t f3 have a3: "strip_fences (''```'' @ ?body @ ''```'') = strip ?body" by blast
  from a2 have sf: "strip_fences demo_workflow_text = demo_workflow_text" by (simp only: f2)
  have f4: "demo_loads (strip_fences demo_workflow_text) = Inr demo_workflow"
    by (simp add: sf demo_loads_def)
  from t f4 have a4: "extract_workflow demo_loads (JStr demo_workflow_text) =
      Inr (demo_workflow, strip_fences demo_workflow_text)" by blast
  have sp: "strip_fences workflow_in_prose = workflow_in_prose" by code_simp
  have f5: "demo_loads (strip_fences workflow_in_prose) = Inl (''Expecting value'', 1, 1, 0) \<and>
      find ''{'' (strip_fences workflow_in_prose) = Some 13 \<and>
      rfind ''}'' (strip_fences workflow_in_prose) = Some 64 \<and> (13::nat) < 64"
    using prose_find by simp
  from t f5 have a5: "extract_workflow demo_loads (JStr workflow_in_prose) =
      (case demo_loads (take (64 + 1 - 13) (drop 13 (strip_fences workflow_in_prose))) of
         Inr v1 \<Rightarrow> Inr (v1, strip_fences workflow_in_prose)
       | Inl d2 \<Rightarrow> Inl (decode_error d2))" by blast
  have dl: "demo_loads demo_workflow_text = Inr demo_workflow" by (simp add: demo_loads_def)
  have f6: "demo_loads (strip_fences ''Sorry, no workflow'') = Inl (''Expecting value'', 1, 1, 0) \<and>
      \<not> (\<exists>i2 k2. find ''{'' (strip_fences ''Sorry, no workflow'') = Some i2 \<and>
              rfind ''}'' (strip_fences ''Sorry, no workflow'') = Some k2 \<and> i2 < k2)"
  proof -
    have "demo_loads (strip_fences ''Sorry, no workflow'') = Inl (''Expecting value'', 1, 1, 0)"
      by code_simp
    moreover have "find ''{'' (strip_fences ''Sorry, no workflow'') = None" by code_simp
    ultimately show ?thesis by simp
  qed
  have se: "''Could not extract valid JSON from response: '' @ str_of (decode_error (''Expecting value'', 1, 1, 0))
      = ''Could not extract valid JSON from response: Expecting value: line 1 column 1 (char 0)''"
    by code_simp
  from t f6 have a6: "extract_workflow demo_loads (JStr ''Sorry, no workflow'') =
      Inl (ValueError (''Could not extract valid JSON from response: ''
             @ str_of (decode_error (''Expecting value'', 1, 1, 0))))" by blast
  then have a6': "extract_workflow demo_loads (JStr ''Sorry, no workflow'') = Inl ?err"
    by (simp only: se)
  have ea: "extract_analysis (loads no_workflow_env) (JStr ''I cannot help with that'') = analysis_fallback"
    using demo_analysis_unparsed by (simp add: extract_analysis_def no_workflow_env_def demo_env_def)
  have f7: "supabase no_workflow_env \<and> (\<forall>n. db_ok no_workflow_env n) \<and>
      rows demo_world ''job-1'' = Some pending_row \<and>
      chat_reply no_workflow_env (analysis_call demo_request) =
        Inr (JObj [(''message'', JObj [(''content'', JStr ''I cannot help with that'')])]) \<and>
      response_content (JObj [(''message'', JObj [(''content'', JStr ''I cannot help with that'')])])
        = Inr (JStr ''I cannot help with that'') \<and>
      chat_stream no_workflow_env (generation_call no_workflow_env demo_request
         (extract_analysis (loads no_workflow_env) (JStr ''I cannot help with that'')))
        = Inr ''Sorry, no workflow'' \<and>
      extract_workflow (loads no_workflow_env) (JStr ''Sorry, no workflow'') = Inl ?err"
    using demo_analysis_content a6'
    by (simp add: no_workflow_env_def demo_env_def demo_world_def)
  from t f7 have a7: "\<exists>r'. rows (generate_workflow no_workflow_env ''job-1'' demo_request demo_world) ''job-1'' = Some r' \<and>
        status r' = ''failed'' \<and> error_message r' = Some (str_of ?err) \<and> str_of ?err \<noteq> []"
    and a8: "chat_calls (generate_workflow no_workflow_env ''job-1'' demo_request demo_world) =
        chat_calls demo_world @ [analysis_call demo_request,
          generation_call no_workflow_env demo_request
            (extract_analysis (loads no_workflow_env) (JStr ''I cannot help with that''))]"
    by blast+
  have cw: "chat_calls demo_world = []" by (simp add: demo_world_def)
  from a1 have b1: "strip_fences (''```json'' @ ?body @ ''```'') = demo_workflow_text"
    by (simp only: f2)
  from a3 have b3: "strip_fences (''```'' @ ?body @ ''```'') = demo_workflow_text"
    by (simp only: f2)
  from a4 have b4: "extract_workflow demo_loads (JStr demo_workflow_text) =
      Inr (demo_workflow, demo_workflow_text)" by (simp only: sf)
  from a5 have b5: "extract_workflow demo_loads (JStr workflow_in_prose) =
      Inr (demo_workflow, workflow_in_prose)"
  proof -
    from prose_find(3) have pf: "take (64 + 1 - 13) (drop 13 workflow_in_prose) = demo_workflow_text"
      by (simp only: sp)
    from a5 show ?thesis by (simp only: sp pf dl sum.case)
  qed
  from a7 have b7: "\<exists>r'. rows (generate_workflow no_workflow_env ''job-1'' demo_request demo_world) ''job-1'' = Some r' \<and>
        status r' = ''failed'' \<and>
        error_message r' =
          Some ''Could not extract valid JSON from response: Expecting value: line 1 column 1 (char 0)''"
    by (simp only: str_of.simps) blast
  from a8 have b8: "chat_calls (generate_workflow no_workflow_env ''job-1'' demo_request demo_world) =
        [analysis_call demo_request, generation_call no_workflow_env demo_request analysis_fallback]"
    by (simp only: ea cw append_Nil)
  show ?thesis
    by (simp only: b1 b3 sf b4 b5 a6' b7 b8 simp_thms)
qed

end
